theory Spec2Isabelle
  imports Complex_Main "HOL-Library.Product_Lexorder"
begin

section \<open>Basic types of the relational schema\<close>

text \<open>
  A \<open>uuid\<close> is an opaque key; a \<open>date\<close> is a day number (PostgreSQL's \<open>DATE\<close>, where
  \<open>d - INTERVAL '1 day'\<close> is \<open>d - 1\<close>); a \<open>timestamp\<close> counts microseconds, and
  \<open>DATE(ts)\<close> is the day it falls in. SQL \<open>INTEGER\<close> columns that may be \<open>NULL\<close> are
  \<open>int option\<close>, with \<open>COALESCE(x, 0)\<close> written \<open>coalesce0\<close>.
\<close>

type_synonym uuid = nat
type_synonym date = int
type_synonym timestamp = int

definition DATE :: "timestamp \<Rightarrow> date" where
  "DATE ts = ts div 86400000000"

text \<open>Day number of a calendar date (days since 1970-01-01, proleptic Gregorian).\<close>

definition make_date :: "int \<Rightarrow> int \<Rightarrow> int \<Rightarrow> date" where
  "make_date y m d =
     (let y' = (if m \<le> 2 then y - 1 else y);
          era = y' div 400;
          yoe = y' - era * 400;
          mp = (m + 9) mod 12;
          doy = (153 * mp + 2) div 5 + d - 1;
          doe = yoe * 365 + yoe div 4 - yoe div 100 + doy
      in era * 146097 + doe - 719468)"

definition coalesce0 :: "int option \<Rightarrow> int" where
  "coalesce0 x = (case x of None \<Rightarrow> 0 | Some v \<Rightarrow> v)"

section \<open>Tables read and written by the streak functions\<close>

text \<open>
  \<open>completed_boosts.id\<close> is a column here, since the trigger function \<open>update_burn_streak\<close>
  compares it with the \<open>id\<close> of the row just inserted.
\<close>

record completed_boost =
  cb_id :: uuid
  cb_user_id :: uuid
  cb_boost_id :: string
  cb_completed_date :: date

text \<open>
  The columns of \<open>users\<close> that the functions below read or write. \<open>burn_streak\<close> and
  \<open>longest_burn_streak\<close> are nullable (the code wraps them in \<open>COALESCE\<close>).
\<close>

record user_row =
  u_id :: uuid
  u_name :: string
  u_email :: string
  burn_streak :: "int option"
  longest_burn_streak :: "int option"
  fuel_points :: int
  days_since_fp :: int
  u_created_at :: timestamp
  health_score :: "rat option"
  healthspan_years :: "rat option"
  lifetime_fp :: "int option"
  u_level :: "int option"

record fp_earning =
  fe_user_id :: uuid
  fe_item_id :: string
  fe_item_name :: string
  fe_item_type :: string
  fe_fp_amount :: int
  fe_user_name :: "string option"
  fe_earned_at :: timestamp

record daily_fp_row =
  df_user_id :: uuid
  df_date :: date
  df_fp_earned :: int
  df_boosts_completed :: int
  df_challenges_completed :: int
  df_user_name :: "string option"

record streak_fix_row =
  sf_user_id :: uuid
  sf_previous_streak :: "int option"
  sf_new_streak :: int
  sf_previous_longest :: "int option"
  sf_new_longest :: "int option"
  sf_reason :: string

text \<open>
  The tables of the challenge functions. A row's generated primary key \<open>id\<close> is its
  position in the table (no function below deletes a row), so \<open>RETURNING id\<close> and
  \<open>WHERE id = \<dots>\<close> are list positions. \<open>challenges.verification_count\<close> is taken to be
  \<open>NOT NULL\<close> (every insert below writes it); \<open>progress\<close> is a float in the database and a
  rational here. Constant descriptive columns (category, name, description, title,
  metadata) are left out.
\<close>

record completed_action =
  ca_user_id :: uuid
  ca_action_id :: string
  ca_completed_date :: date
  ca_fp_earned :: int

record challenge_row =
  ch_user_id :: uuid
  ch_challenge_id :: string
  ch_status :: string
  ch_verification_count :: int
  ch_verifications_required :: "int option"
  ch_started_at :: timestamp
  ch_completed_at :: "timestamp option"
  ch_progress :: rat

record completed_challenge =
  cc_user_id :: uuid
  cc_challenge_id :: string
  cc_completed_at :: timestamp
  cc_fp_earned :: int
  cc_days_to_complete :: int
  cc_final_progress :: int
  cc_status :: string
  cc_verification_count :: int
  cc_started_at :: timestamp

text \<open>
  The tables of the custom challenges. \<open>custom_challenges.id\<close> and
  \<open>custom_challenge_actions.id\<close> are passed in by the caller and are columns here; the
  \<open>id\<close> of a daily completion is its position. The JSON \<open>details\<close> of a debug log row are
  left out.
\<close>

record custom_challenge =
  cuc_id :: uuid
  cuc_user_id :: uuid
  cuc_name :: string
  cuc_status :: string
  cuc_daily_minimum :: int
  cuc_fp_daily_reward :: int
  cuc_fp_completion_reward :: int
  cuc_target_completions :: int
  cuc_total_completions :: int
  cuc_last_completion_date :: "date option"
  cuc_progress :: rat
  cuc_completed_at :: "timestamp option"

record daily_completion =
  cdc_custom_challenge_id :: uuid
  cdc_user_id :: uuid
  cdc_completion_date :: date
  cdc_actions_completed :: int
  cdc_minimum_met :: bool

record challenge_action =
  cua_id :: uuid
  cua_custom_challenge_id :: uuid

record action_completion =
  cac_daily_completion_id :: nat
  cac_action_id :: uuid
  cac_completed :: bool

record debug_log =
  dl_operation :: string
  dl_table_name :: string
  dl_record_id :: string
  dl_success :: bool

text \<open>
  The tables the daily snapshot reads, with the columns it reads, and the snapshot table
  \<open>all_user_insights\<close>. Scores and averages are \<open>numeric\<close> in the database and rationals
  here; a \<open>NULL\<close> is \<open>None\<close>.
\<close>

record health_assessment =
  ha_user_id :: uuid
  ha_created_at :: timestamp
  mindset_score :: "rat option"
  sleep_score :: "rat option"
  exercise_score :: "rat option"
  nutrition_score :: "rat option"
  biohacking_score :: "rat option"

record completed_quest =
  cq_user_id :: uuid
  cq_completed_at :: timestamp

record active_contest =
  ac_user_id :: uuid
  ac_challenge_id :: string
  ac_status :: string
  ac_created_at :: timestamp
  ac_updated_at :: timestamp

record chat_message =
  cm_user_id :: uuid
  cm_chat_id :: string
  cm_created_at :: timestamp
  cm_is_verification :: bool

record user_device =
  ud_provider :: "string option"
  ud_status :: string

record contest_registration =
  cr_user_id :: uuid
  cr_registered_at :: timestamp

record cosmo_chat_message =
  ccm_user_id :: uuid
  ccm_created_at :: timestamp

record category_averages =
  avg_mindset :: "rat option"
  avg_sleep :: "rat option"
  avg_exercise :: "rat option"
  avg_nutrition :: "rat option"
  avg_biohacking :: "rat option"

record insight_row =
  ai_date :: date
  ai_total_users :: int
  ai_active_users :: int
  ai_new_users :: int
  ai_average_health_score :: "rat option"
  ai_average_healthspan_years :: "rat option"
  ai_total_healthspan_years :: "rat option"
  ai_category_averages :: category_averages
  ai_total_fp_earned :: int
  ai_average_fp_per_user :: rat
  ai_total_boosts_completed :: int
  ai_total_challenges_completed :: int
  ai_total_quests_completed :: int
  ai_total_contests_active :: int
  ai_total_chat_messages :: int
  ai_total_verification_posts :: int
  ai_device_connection_stats :: "int \<times> (string \<times> int) list"
  ai_total_lifetime_fp :: "int option"
  ai_average_level :: "rat option"
  ai_highest_level :: "int option"
  ai_total_lifetime_boosts :: int
  ai_total_lifetime_challenges :: int
  ai_total_lifetime_quests :: int
  ai_total_lifetime_chat_messages :: int
  ai_total_lifetime_verification_posts :: int
  ai_challenge_actions :: int
  ai_contest_registrations :: int
  ai_challenge_registrations :: int
  ai_cosmo_chats :: int
  ai_contest_verifications :: int
  ai_health_assessments :: int

section \<open>\<open>calculate_burn_streak\<close> (migration 20250705181753)\<close>

text \<open>
  \<open>SELECT EXISTS (SELECT 1 FROM completed_boosts WHERE user_id = p_user_id
  AND completed_date = v_check_date)\<close>.
\<close>

definition has_boost :: "completed_boost list \<Rightarrow> uuid \<Rightarrow> date \<Rightarrow> bool" where
  "has_boost cbs p_user_id v_check_date =
     list_ex (\<lambda>r. cb_user_id r = p_user_id \<and> cb_completed_date r = v_check_date) cbs"

definition v_max_days_to_check :: int where
  "v_max_days_to_check = 100"

text \<open>
  The \<open>LOOP\<close> of the function body. One call is one iteration, entered with the current
  values of \<open>v_check_date\<close>, \<open>v_streak\<close> and \<open>v_days_checked\<close>; the two \<open>EXIT\<close>s are the
  two non-recursive branches.
\<close>

function burn_streak_loop ::
  "completed_boost list \<Rightarrow> uuid \<Rightarrow> date \<Rightarrow> int \<Rightarrow> int \<Rightarrow> int" where
  "burn_streak_loop cbs p_user_id v_check_date v_streak v_days_checked =
     (if \<not> has_boost cbs p_user_id v_check_date then v_streak
      else if v_days_checked + 1 \<ge> v_max_days_to_check then v_streak + 1
      else burn_streak_loop cbs p_user_id (v_check_date - 1) (v_streak + 1) (v_days_checked + 1))"
  by pat_completeness auto
termination
  by (relation "measure (\<lambda>(cbs, u, d, s, n). nat (v_max_days_to_check - n))")
     (auto simp: v_max_days_to_check_def)

text \<open>\<open>CURRENT_DATE\<close> is the parameter \<open>today\<close>.\<close>

definition calculate_burn_streak :: "completed_boost list \<Rightarrow> date \<Rightarrow> uuid \<Rightarrow> int" where
  "calculate_burn_streak cbs today p_user_id = burn_streak_loop cbs p_user_id today 0 0"

section \<open>Counting consecutive days\<close>

text \<open>
  \<open>consec_days P d n\<close> is the number of consecutive days \<open>d, d - 1, d - 2, \<dots>\<close> that satisfy
  \<open>P\<close>, looking at no more than \<open>n\<close> days.
\<close>

fun consec_days :: "(date \<Rightarrow> bool) \<Rightarrow> date \<Rightarrow> nat \<Rightarrow> nat" where
  "consec_days P d 0 = 0"
| "consec_days P d (Suc n) = (if P d then Suc (consec_days P (d - 1) n) else 0)"

section \<open>The database state\<close>

text \<open>
  Tables are lists of rows in storage order (the order a \<open>FOR \<dots> IN SELECT\<close> without
  \<open>ORDER BY\<close> visits them, and the row a \<open>SELECT \<dots> INTO\<close> without \<open>ORDER BY\<close> takes
  first). \<open>burn_streak_debug_logs\<close> has \<open>user_id\<close> as primary key and pairs a user
  with the logged \<open>calculated_streak\<close>; its JSON \<open>debug_info\<close> column is diagnostic
  text and is left out.
\<close>

record db =
  users :: "user_row list"
  completed_boosts :: "completed_boost list"
  fp_earnings :: "fp_earning list"
  daily_fp :: "daily_fp_row list"
  manual_burn_streak_fixes :: "streak_fix_row list"
  burn_streak_debug_logs :: "(uuid \<times> int) list"
  completed_actions :: "completed_action list"
  challenges :: "challenge_row list"
  completed_challenges :: "completed_challenge list"
  custom_challenges :: "custom_challenge list"
  custom_challenge_daily_completions :: "daily_completion list"
  custom_challenge_actions :: "challenge_action list"
  custom_challenge_action_completions :: "action_completion list"
  debug_logs :: "debug_log list"
  health_assessments :: "health_assessment list"
  completed_quests :: "completed_quest list"
  active_contests :: "active_contest list"
  chat_messages :: "chat_message list"
  user_devices :: "user_device list"
  contest_registrations :: "contest_registration list"
  cosmo_chat_messages :: "cosmo_chat_message list"
  all_user_insights :: "insight_row list"

definition empty_db :: db where
  "empty_db = \<lparr>users = [], completed_boosts = [], fp_earnings = [], daily_fp = [],
     manual_burn_streak_fixes = [], burn_streak_debug_logs = [],
     completed_actions = [], challenges = [], completed_challenges = [],
     custom_challenges = [], custom_challenge_daily_completions = [],
     custom_challenge_actions = [], custom_challenge_action_completions = [],
     debug_logs = [], health_assessments = [], completed_quests = [], active_contests = [],
     chat_messages = [], user_devices = [], contest_registrations = [],
     cosmo_chat_messages = [], all_user_insights = []\<rparr>"

definition new_user :: "uuid \<Rightarrow> string \<Rightarrow> user_row" where
  "new_user i n = \<lparr>u_id = i, u_name = n, u_email = [], burn_streak = Some 0,
     longest_burn_streak = Some 0, fuel_points = 0, days_since_fp = 0, u_created_at = 0,
     health_score = None, healthspan_years = None, lifetime_fp = None, u_level = None\<rparr>"

text \<open>
  \<open>INSERT INTO burn_streak_debug_logs \<dots> ON CONFLICT (user_id) DO UPDATE SET
  calculated_streak = \<dots>\<close>.
\<close>

definition upsert_debug_log :: "uuid \<Rightarrow> int \<Rightarrow> (uuid \<times> int) list \<Rightarrow> (uuid \<times> int) list" where
  "upsert_debug_log p_user_id v logs =
     (if list_ex (\<lambda>l. fst l = p_user_id) logs
      then map (\<lambda>l. if fst l = p_user_id then (p_user_id, v) else l) logs
      else logs @ [(p_user_id, v)])"

text \<open>\<open>SELECT \<dots> FROM users WHERE id = p_user_id\<close>: the first matching row, if any.\<close>

definition select_user :: "db \<Rightarrow> uuid \<Rightarrow> user_row option" where
  "select_user s p_user_id = find (\<lambda>r. u_id r = p_user_id) (users s)"

text \<open>\<open>UPDATE users SET \<dots> WHERE id = p_user_id\<close>.\<close>

definition update_user :: "uuid \<Rightarrow> (user_row \<Rightarrow> user_row) \<Rightarrow> db \<Rightarrow> db" where
  "update_user p_user_id f s =
     s\<lparr>users := map (\<lambda>r. if u_id r = p_user_id then f r else r) (users s)\<rparr>"

section \<open>\<open>recalculate_burn_streak\<close> and \<open>recalculate_all_burn_streaks\<close>\<close>

text \<open>
  The JSON object a recalculation returns: \<open>success = TRUE\<close> with the user, the previous
  and new streak and the previous and new longest streak, or \<open>success = FALSE\<close> with the
  user (and the error text \<open>SQLERRM\<close>, not modelled).
\<close>

datatype streak_result =
  StreakOk uuid "int option" int "int option" int
| StreakError uuid

fun streak_result_success :: "streak_result \<Rightarrow> bool" where
  "streak_result_success (StreakOk u old new old_longest new_longest) = True"
| "streak_result_success (StreakError u) = False"

fun streak_result_user :: "streak_result \<Rightarrow> uuid" where
  "streak_result_user (StreakOk u old new old_longest new_longest) = u"
| "streak_result_user (StreakError u) = u"

text \<open>
  The body runs in a block with \<open>EXCEPTION WHEN OTHERS\<close>: if a statement raises, the
  block's writes are rolled back and the error object is returned. Which calls raise is
  decided by the storage engine; it is the parameter \<open>raises\<close>, true of a user when some
  statement of that user's recalculation raises.
\<close>

definition recalculate_burn_streak ::
  "(uuid \<Rightarrow> bool) \<Rightarrow> date \<Rightarrow> uuid \<Rightarrow> db \<Rightarrow> streak_result \<times> db" where
  "recalculate_burn_streak raises today p_user_id s =
     (if raises p_user_id then (StreakError p_user_id, s)
      else
        let v_old_streak = (case select_user s p_user_id of None \<Rightarrow> None | Some r \<Rightarrow> burn_streak r);
            v_longest_streak =
              (case select_user s p_user_id of None \<Rightarrow> None | Some r \<Rightarrow> longest_burn_streak r);
            v_new_streak = calculate_burn_streak (completed_boosts s) today p_user_id;
            s1 = update_user p_user_id
                   (\<lambda>r. r\<lparr>burn_streak := Some v_new_streak,
                           longest_burn_streak :=
                             Some (max (coalesce0 (longest_burn_streak r)) v_new_streak)\<rparr>) s;
            s2 = s1\<lparr>manual_burn_streak_fixes := manual_burn_streak_fixes s1 @
                   [\<lparr>sf_user_id = p_user_id, sf_previous_streak = v_old_streak,
                     sf_new_streak = v_new_streak, sf_previous_longest = v_longest_streak,
                     sf_new_longest = Some (max (coalesce0 v_longest_streak) v_new_streak),
                     sf_reason = ''Automatic recalculation via recalculate_burn_streak function''\<rparr>]\<rparr>
        in (StreakOk p_user_id v_old_streak v_new_streak v_longest_streak
              (max (coalesce0 v_longest_streak) v_new_streak), s2))"

record recalc_summary =
  total_users :: int
  success_count :: int
  error_count :: int
  results :: "streak_result list"

text \<open>
  The \<open>FOR v_user IN SELECT id FROM users LOOP\<close>: the ids are those of the table when the
  loop starts; the accumulator holds \<open>v_success_count\<close>, \<open>v_error_count\<close>, \<open>v_results\<close>.
\<close>

fun recalculate_all_loop ::
  "(uuid \<Rightarrow> bool) \<Rightarrow> date \<Rightarrow> uuid list \<Rightarrow> int \<times> int \<times> streak_result list \<Rightarrow> db \<Rightarrow>
   (int \<times> int \<times> streak_result list) \<times> db" where
  "recalculate_all_loop raises today [] acc s = (acc, s)"
| "recalculate_all_loop raises today (v_user # rest) (v_success_count, v_error_count, v_results) s =
     (let (v_result, s') = recalculate_burn_streak raises today v_user s;
          v_results' = v_results @ [v_result]
      in if streak_result_success v_result
         then recalculate_all_loop raises today rest (v_success_count + 1, v_error_count, v_results') s'
         else recalculate_all_loop raises today rest (v_success_count, v_error_count + 1, v_results') s')"

text \<open>
  No statement of the outer block can raise on its own (the per-user call catches every
  error), so the outer \<open>EXCEPTION\<close> branch is never taken.
\<close>

definition recalculate_all_burn_streaks ::
  "(uuid \<Rightarrow> bool) \<Rightarrow> date \<Rightarrow> db \<Rightarrow> recalc_summary \<times> db" where
  "recalculate_all_burn_streaks raises today s =
     (let ((v_success_count, v_error_count, v_results), s') =
            recalculate_all_loop raises today (map u_id (users s)) (0, 0, []) s
      in (\<lparr>total_users = v_success_count + v_error_count, success_count = v_success_count,
           error_count = v_error_count, results = v_results\<rparr>, s'))"

definition fix_all_user_burn_streaks ::
  "(uuid \<Rightarrow> bool) \<Rightarrow> date \<Rightarrow> db \<Rightarrow> recalc_summary \<times> db" where
  "fix_all_user_burn_streaks = recalculate_all_burn_streaks"

text \<open>
  The trigger \<open>update_burn_streak_on_boost_completion_trigger\<close>: after a row is inserted
  into \<open>completed_boosts\<close>, the user's streak is recalculated.
\<close>

definition update_burn_streak_on_boost_completion ::
  "(uuid \<Rightarrow> bool) \<Rightarrow> date \<Rightarrow> completed_boost \<Rightarrow> db \<Rightarrow> db" where
  "update_burn_streak_on_boost_completion raises today NEW s =
     snd (recalculate_burn_streak raises today (cb_user_id NEW) s)"

definition insert_completed_boost ::
  "(uuid \<Rightarrow> bool) \<Rightarrow> date \<Rightarrow> completed_boost \<Rightarrow> db \<Rightarrow> db" where
  "insert_completed_boost raises today NEW s =
     update_burn_streak_on_boost_completion raises today NEW
       (s\<lparr>completed_boosts := completed_boosts s @ [NEW]\<rparr>)"

section \<open>\<open>reset_missed_burn_streaks\<close>\<close>

text \<open>
  The rows the \<open>FOR\<close> query selects: users with \<open>burn_streak > 0\<close> (false for \<open>NULL\<close>) and
  no completed boost yesterday. The loop resets each to 0 and logs it. The block has an
  \<open>EXCEPTION WHEN OTHERS\<close> handler: \<open>raises\<close> says that some statement raised, and then
  nothing is written.
\<close>

definition missed_users :: "date \<Rightarrow> db \<Rightarrow> user_row list" where
  "missed_users today s =
     filter (\<lambda>u. (case burn_streak u of None \<Rightarrow> False | Some b \<Rightarrow> b > 0) \<and>
                 \<not> has_boost (completed_boosts s) (u_id u) (today - 1)) (users s)"

fun reset_loop :: "user_row list \<Rightarrow> db \<Rightarrow> db" where
  "reset_loop [] s = s"
| "reset_loop (v_user # rest) s =
     reset_loop rest
       ((update_user (u_id v_user) (\<lambda>r. r\<lparr>burn_streak := Some 0\<rparr>) s)
          \<lparr>manual_burn_streak_fixes := manual_burn_streak_fixes s @
             [\<lparr>sf_user_id = u_id v_user, sf_previous_streak = burn_streak v_user,
               sf_new_streak = 0, sf_previous_longest = None, sf_new_longest = None,
               sf_reason = ''Automatic reset due to missed day''\<rparr>]\<rparr>)"

definition reset_missed_burn_streaks :: "bool \<Rightarrow> date \<Rightarrow> db \<Rightarrow> int option \<times> db" where
  "reset_missed_burn_streaks raises today s =
     (if raises then (None, s)
      else (Some (int (length (missed_users today s))), reset_loop (missed_users today s) s))"

text \<open>
  What a successful recalculation writes into a row of \<open>users\<close>, and the rows a loop over
  the users \<open>ids\<close> rewrites (those it visits and whose recalculation does not raise).
\<close>

definition recalculated_row :: "completed_boost list \<Rightarrow> date \<Rightarrow> user_row \<Rightarrow> user_row" where
  "recalculated_row cbs today r =
     r\<lparr>burn_streak := Some (calculate_burn_streak cbs today (u_id r)),
       longest_burn_streak :=
         Some (max (coalesce0 (longest_burn_streak r)) (calculate_burn_streak cbs today (u_id r)))\<rparr>"

definition recalc_rows ::
  "(uuid \<Rightarrow> bool) \<Rightarrow> completed_boost list \<Rightarrow> date \<Rightarrow> uuid list \<Rightarrow> user_row \<Rightarrow> user_row" where
  "recalc_rows raises cbs today ids r =
     (if u_id r \<in> set ids \<and> \<not> raises (u_id r) then recalculated_row cbs today r else r)"

section \<open>\<open>fix_user_burn_streak\<close> (discarded migration 20250614234610)\<close>

text \<open>
  \<open>SELECT array_agg(date ORDER BY date) FROM daily_fp WHERE user_id = p_user_id AND
  fp_earned > 0\<close>: the user's point-earning dates in ascending order.
\<close>

definition fp_dates :: "db \<Rightarrow> uuid \<Rightarrow> date list" where
  "fp_dates s p_user_id =
     sort (map df_date (filter (\<lambda>r. df_user_id r = p_user_id \<and> df_fp_earned r > 0) (daily_fp s)))"

text \<open>
  The \<open>FOR i IN REVERSE \<dots>\<close> loop, run over the dates from the most recent one back. The
  arguments after the dates are \<open>v_last_date\<close> (\<open>NULL\<close> before the first date) and
  \<open>v_current_streak\<close>. The flag \<open>v_gap\<close> is written and never read.
\<close>

fun fix_streak_loop :: "date \<Rightarrow> date list \<Rightarrow> date option \<Rightarrow> int \<Rightarrow> int" where
  "fix_streak_loop today [] v_last_date v_current_streak = v_current_streak"
| "fix_streak_loop today (v_current_date # rest) None v_current_streak =
     (if v_current_date = today \<or> v_current_date = today - 1
      then fix_streak_loop today rest (Some v_current_date) 1
      else 0)"
| "fix_streak_loop today (v_current_date # rest) (Some v_last_date) v_current_streak =
     (if v_current_date + 1 < v_last_date then v_current_streak
      else fix_streak_loop today rest (Some v_current_date)
             (if v_current_date \<noteq> v_last_date then v_current_streak + 1 else v_current_streak))"

text \<open>The result is the pair of \<open>old_streak\<close> and \<open>new_streak\<close> of the returned object.\<close>

definition fix_user_burn_streak :: "date \<Rightarrow> uuid \<Rightarrow> db \<Rightarrow> (int option \<times> int) \<times> db" where
  "fix_user_burn_streak today p_user_id s =
     (let v_old_streak = (case select_user s p_user_id of None \<Rightarrow> None | Some r \<Rightarrow> burn_streak r);
          v_dates = fp_dates s p_user_id
      in if v_dates = []
         then ((v_old_streak, 0), update_user p_user_id (\<lambda>r. r\<lparr>burn_streak := Some 0\<rparr>) s)
         else let v_current_streak = fix_streak_loop today (rev v_dates) None 0
              in ((v_old_streak, v_current_streak),
                  update_user p_user_id (\<lambda>r. r\<lparr>burn_streak := Some v_current_streak\<rparr>) s))"

section \<open>\<open>calculate_burn_streak_from_fp_earnings\<close> and \<open>update_burn_streak\<close>
  (discarded migration 20250609120414)\<close>

text \<open>
  \<open>SELECT DISTINCT DATE(earned_at) AS date FROM fp_earnings WHERE user_id = p_user_id AND
  item_type = 'boost' ORDER BY date DESC\<close>.
\<close>

definition boost_earning_dates :: "db \<Rightarrow> uuid \<Rightarrow> date list" where
  "boost_earning_dates s p_user_id =
     rev (sort (remdups (map (\<lambda>e. DATE (fe_earned_at e))
       (filter (\<lambda>e. fe_user_id e = p_user_id \<and> fe_item_type e = ''boost'') (fp_earnings s)))))"

text \<open>
  The \<open>FOR v_date_record IN \<dots> LOOP\<close>; it returns \<open>v_last_date\<close> and \<open>v_current_streak\<close>
  as they are when the loop ends or exits.
\<close>

fun fp_streak_loop :: "date list \<Rightarrow> date option \<Rightarrow> int \<Rightarrow> date option \<times> int" where
  "fp_streak_loop [] v_last_date v_current_streak = (v_last_date, v_current_streak)"
| "fp_streak_loop (d # rest) None v_current_streak = fp_streak_loop rest (Some d) 1"
| "fp_streak_loop (d # rest) (Some v_last_date) v_current_streak =
     (if d = v_last_date - 1 then fp_streak_loop rest (Some d) (v_current_streak + 1)
      else (Some v_last_date, v_current_streak))"

definition calculate_burn_streak_from_fp_earnings :: "date \<Rightarrow> uuid \<Rightarrow> db \<Rightarrow> int \<times> db" where
  "calculate_burn_streak_from_fp_earnings today p_user_id s =
     (let v_yesterday = today - 1;
          (v_last_date, v_streak) = fp_streak_loop (boost_earning_dates s p_user_id) None 0;
          v_current_streak =
            (case v_last_date of
               None \<Rightarrow> v_streak
             | Some l \<Rightarrow>
                 if l < v_yesterday
                 then (if list_ex (\<lambda>e. fe_user_id e = p_user_id \<and> DATE (fe_earned_at e) = today \<and>
                                        fe_item_type e = ''boost'') (fp_earnings s)
                       then 1 else 0)
                 else v_streak)
      in (v_current_streak,
          s\<lparr>burn_streak_debug_logs :=
              upsert_debug_log p_user_id v_current_streak (burn_streak_debug_logs s)\<rparr>))"

definition fix_user_burn_streak_from_fp_earnings ::
  "date \<Rightarrow> uuid \<Rightarrow> db \<Rightarrow> (int option \<times> int) \<times> db" where
  "fix_user_burn_streak_from_fp_earnings today p_user_id s =
     (let v_current_streak = (case select_user s p_user_id of None \<Rightarrow> None | Some r \<Rightarrow> burn_streak r);
          (v_correct_streak, s1) = calculate_burn_streak_from_fp_earnings today p_user_id s
      in if v_correct_streak \<noteq> coalesce0 v_current_streak
         then ((v_current_streak, v_correct_streak),
               update_user p_user_id (\<lambda>r. r\<lparr>burn_streak := Some v_correct_streak\<rparr>) s1)
         else ((v_current_streak, v_correct_streak), s1))"

text \<open>
  The trigger function \<open>update_burn_streak\<close>, run after the row \<open>NEW\<close> has been inserted
  into \<open>completed_boosts\<close>.
\<close>

definition update_burn_streak :: "completed_boost \<Rightarrow> db \<Rightarrow> db" where
  "update_burn_streak NEW s =
     (let v_first_boost_today =
            (\<not> list_ex (\<lambda>r. cb_user_id r = cb_user_id NEW \<and>
                              cb_completed_date r = cb_completed_date NEW \<and>
                              cb_id r \<noteq> cb_id NEW) (completed_boosts s))
      in if v_first_boost_today
         then let v_current_streak =
                    coalesce0 (case select_user s (cb_user_id NEW) of None \<Rightarrow> None
                               | Some r \<Rightarrow> burn_streak r);
                  s1 = update_user (cb_user_id NEW)
                         (\<lambda>r. r\<lparr>burn_streak := Some (v_current_streak + 1)\<rparr>) s
              in s1\<lparr>burn_streak_debug_logs :=
                      upsert_debug_log (cb_user_id NEW) (v_current_streak + 1)
                        (burn_streak_debug_logs s1)\<rparr>
         else s)"

section \<open>\<open>fix_user_burn_streak_20250624\<close>\<close>

text \<open>
  The one-off fix sets the streak to 22 and raises the longest streak to it if it is lower.
  The body has an \<open>EXCEPTION WHEN OTHERS\<close> handler; \<open>raises\<close> says that a statement raised.
\<close>

definition fix_user_burn_streak_20250624 :: "bool \<Rightarrow> uuid \<Rightarrow> db \<Rightarrow> streak_result \<times> db" where
  "fix_user_burn_streak_20250624 raises p_user_id s =
     (if raises then (StreakError p_user_id, s)
      else
        let v_old_streak = (case select_user s p_user_id of None \<Rightarrow> None | Some r \<Rightarrow> burn_streak r);
            v_longest_streak =
              (case select_user s p_user_id of None \<Rightarrow> None | Some r \<Rightarrow> longest_burn_streak r);
            v_new_streak = 22
        in (StreakOk p_user_id v_old_streak v_new_streak v_longest_streak
              (max (coalesce0 v_longest_streak) v_new_streak),
            update_user p_user_id
              (\<lambda>r. r\<lparr>burn_streak := Some v_new_streak,
                      longest_burn_streak :=
                        Some (max (coalesce0 (longest_burn_streak r)) v_new_streak)\<rparr>) s))"

section \<open>\<open>handle_morning_basics_completion\<close>\<close>

text \<open>The position of the first row that satisfies \<open>P\<close>: the row a \<open>SELECT \<dots> INTO\<close> takes.\<close>

fun first_index :: "('a \<Rightarrow> bool) \<Rightarrow> 'a list \<Rightarrow> nat option" where
  "first_index P [] = None"
| "first_index P (x # xs) = (if P x then Some 0 else map_option Suc (first_index P xs))"

text \<open>
  The statements of the function that write, by the block they stand in. Whether a write
  raises (a constraint, a trigger, a type error of the live schema) is decided by the
  storage engine: the parameter \<open>fails\<close> says which of them do. A statement of the outer
  block that raises ends the function in the outer \<open>EXCEPTION WHEN OTHERS\<close> handler, which
  returns the error object and rolls all writes of the function back. \<open>CompletedChallengeInsert\<close>,
  \<open>EarningInsert\<close>, \<open>DailyFpUpsert\<close> and \<open>UserUpdate\<close> stand in \<open>BEGIN \<dots> EXCEPTION WHEN OTHERS\<close>
  blocks of their own: their error is noted in \<open>debug_info\<close> and the function goes on.
\<close>

datatype mb_step =
  ChallengeInsert | ChallengeUpdate | BonusEarningInsert | CompletedChallengeInsert
| CompletedActionInsert | EarningInsert | DailyFpUpsert | UserUpdate

datatype mb_error = NotAuthenticated | AlreadyCompletedToday | SqlError mb_step

text \<open>
  The success object: \<open>fp_earned\<close>, \<open>verification_count\<close> (also returned as
  \<open>days_completed\<close>), \<open>challenge_completed\<close>, and of \<open>debug_info\<close> the errors that were
  caught on the way.
\<close>

record mb_success =
  ms_fp_earned :: int
  ms_verification_count :: int
  ms_challenge_completed :: bool
  ms_swallowed :: "mb_step list"

definition fp_to_award :: int where "fp_to_award = 5"
definition bonus_fp :: int where "bonus_fp = 50"

definition is_mb0 :: "uuid \<Rightarrow> challenge_row \<Rightarrow> bool" where
  "is_mb0 current_user_id c = (ch_user_id c = current_user_id \<and> ch_challenge_id c = ''mb0'')"

text \<open>
  The rows the challenge part inserts: the new \<open>challenges\<close> row of a first completion, the
  bonus ledger entry, and the \<open>completed_challenges\<close> row (inserted with \<open>EXECUTE\<close>).
\<close>

definition mb_new_challenge :: "uuid \<Rightarrow> timestamp \<Rightarrow> challenge_row" where
  "mb_new_challenge current_user_id now =
     \<lparr>ch_user_id = current_user_id, ch_challenge_id = ''mb0'', ch_status = ''active'',
      ch_verification_count = 1, ch_verifications_required = Some 21,
      ch_started_at = now, ch_completed_at = None, ch_progress = 0\<rparr>"

definition mb_bonus_earning :: "uuid \<Rightarrow> string option \<Rightarrow> timestamp \<Rightarrow> fp_earning" where
  "mb_bonus_earning current_user_id user_name now =
     \<lparr>fe_user_id = current_user_id, fe_item_id = ''mb0'',
      fe_item_name = ''Morning Basics Challenge Completion'', fe_item_type = ''challenge'',
      fe_fp_amount = bonus_fp, fe_user_name = user_name, fe_earned_at = now\<rparr>"

definition mb_completed_challenge :: "uuid \<Rightarrow> timestamp \<Rightarrow> timestamp \<Rightarrow> completed_challenge" where
  "mb_completed_challenge current_user_id now challenge_start_date =
     \<lparr>cc_user_id = current_user_id, cc_challenge_id = ''mb0'', cc_completed_at = now,
      cc_fp_earned = bonus_fp, cc_days_to_complete = 21, cc_final_progress = 100,
      cc_status = ''completed'', cc_verification_count = 21,
      cc_started_at = challenge_start_date\<rparr>"

text \<open>The two \<open>UPDATE challenges \<dots> WHERE id = challenge_record_id\<close>, as changes of the row.\<close>

definition mb_mark_completed :: "int \<Rightarrow> timestamp \<Rightarrow> challenge_row \<Rightarrow> challenge_row" where
  "mb_mark_completed current_verification_count now c =
     c\<lparr>ch_verification_count := current_verification_count, ch_status := ''completed'',
       ch_completed_at := Some now, ch_progress := 100\<rparr>"

definition mb_mark_progress :: "int \<Rightarrow> challenge_row \<Rightarrow> challenge_row" where
  "mb_mark_progress current_verification_count c =
     c\<lparr>ch_verification_count := current_verification_count,
       ch_progress := (of_int current_verification_count / 21) * 100\<rparr>"

text \<open>
  The part from ``Get or create challenge record'' to the end of that \<open>IF\<close>. It returns
  \<open>current_verification_count\<close>, \<open>challenge_completed\<close>, the errors caught, and the state.
\<close>

definition mb_challenge_step ::
  "(mb_step \<Rightarrow> bool) \<Rightarrow> uuid \<Rightarrow> timestamp \<Rightarrow> string option \<Rightarrow> bool \<Rightarrow> db \<Rightarrow>
   mb_step + (int \<times> bool \<times> mb_step list \<times> db)" where
  "mb_challenge_step fails current_user_id now user_name has_completed_challenge s =
     (case first_index (is_mb0 current_user_id) (challenges s) of
        None \<Rightarrow>
          if fails ChallengeInsert then Inl ChallengeInsert
          else Inr (1, False, [],
                 s\<lparr>challenges := challenges s @ [mb_new_challenge current_user_id now]\<rparr>)
      | Some challenge_record_id \<Rightarrow>
          let c = challenges s ! challenge_record_id;
              current_verification_count = ch_verification_count c + 1
          in if current_verification_count \<ge> 21
             then
               if fails ChallengeUpdate then Inl ChallengeUpdate
               else
                 let s1 = s\<lparr>challenges := (challenges s)[challenge_record_id :=
                            mb_mark_completed current_verification_count now c]\<rparr>
                 in if \<not> has_completed_challenge
                    then
                      if fails BonusEarningInsert then Inl BonusEarningInsert
                      else
                        let s2 = s1\<lparr>fp_earnings := fp_earnings s1 @
                                   [mb_bonus_earning current_user_id user_name now]\<rparr>
                        in if fails CompletedChallengeInsert
                           then Inr (current_verification_count, True, [CompletedChallengeInsert], s2)
                           else Inr (current_verification_count, True, [],
                                  s2\<lparr>completed_challenges := completed_challenges s2 @
                                      [mb_completed_challenge current_user_id now (ch_started_at c)]\<rparr>)
                    else Inr (current_verification_count, True, [], s1)
             else
               if fails ChallengeUpdate then Inl ChallengeUpdate
               else Inr (current_verification_count, False, [],
                      s\<lparr>challenges := (challenges s)[challenge_record_id :=
                          mb_mark_progress current_verification_count c]\<rparr>))"

text \<open>
  \<open>INSERT INTO daily_fp \<dots> ON CONFLICT (user_id, date) DO UPDATE SET fp_earned =
  daily_fp.fp_earned + \<dots>, boosts_completed = daily_fp.boosts_completed + 1\<close>.
\<close>

definition upsert_daily_fp :: "uuid \<Rightarrow> date \<Rightarrow> int \<Rightarrow> string option \<Rightarrow> db \<Rightarrow> db" where
  "upsert_daily_fp current_user_id today_date amount user_name s =
     (case first_index (\<lambda>r. df_user_id r = current_user_id \<and> df_date r = today_date) (daily_fp s) of
        None \<Rightarrow>
          s\<lparr>daily_fp := daily_fp s @
              [\<lparr>df_user_id = current_user_id, df_date = today_date, df_fp_earned = amount,
                df_boosts_completed = 1, df_challenges_completed = 0, df_user_name = user_name\<rparr>]\<rparr>
      | Some i \<Rightarrow>
          s\<lparr>daily_fp := (daily_fp s)[i := (daily_fp s ! i)
              \<lparr>df_fp_earned := df_fp_earned (daily_fp s ! i) + amount,
               df_boosts_completed := df_boosts_completed (daily_fp s ! i) + 1\<rparr>]\<rparr>)"

text \<open>
  The two rows a daily completion inserts: the \<open>completed_actions\<close> record and the ledger
  entry of \<open>fp_to_award\<close> points.
\<close>

definition mb_action :: "uuid \<Rightarrow> date \<Rightarrow> completed_action" where
  "mb_action current_user_id today_date =
     \<lparr>ca_user_id = current_user_id, ca_action_id = ''morning_basics_daily'',
      ca_completed_date = today_date, ca_fp_earned = fp_to_award\<rparr>"

definition mb_earning :: "uuid \<Rightarrow> string option \<Rightarrow> timestamp \<Rightarrow> fp_earning" where
  "mb_earning current_user_id user_name now =
     \<lparr>fe_user_id = current_user_id, fe_item_id = ''morning_basics_daily'',
      fe_item_name = ''Morning Basics Daily'', fe_item_type = ''challenge'',
      fe_fp_amount = fp_to_award, fe_user_name = user_name, fe_earned_at = now\<rparr>"

text \<open>The part from ``Insert completed action record'' to the success object.\<close>

definition mb_award_step ::
  "(mb_step \<Rightarrow> bool) \<Rightarrow> uuid \<Rightarrow> date \<Rightarrow> timestamp \<Rightarrow> string option \<Rightarrow>
   int \<Rightarrow> bool \<Rightarrow> mb_step list \<Rightarrow> db \<Rightarrow> mb_step + (mb_success \<times> db)" where
  "mb_award_step fails current_user_id today_date now user_name
       current_verification_count challenge_completed swallowed s =
     (if fails CompletedActionInsert then Inl CompletedActionInsert
      else
        let s1 = s\<lparr>completed_actions := completed_actions s @ [mb_action current_user_id today_date]\<rparr>;
            s2 = (if fails EarningInsert then s1
                  else s1\<lparr>fp_earnings := fp_earnings s1 @ [mb_earning current_user_id user_name now]\<rparr>);
            amount = fp_to_award + (if challenge_completed then bonus_fp else 0);
            s3 = (if fails DailyFpUpsert then s2
                  else upsert_daily_fp current_user_id today_date amount user_name s2);
            s4 = (if fails UserUpdate then s3
                  else update_user current_user_id (\<lambda>r. r\<lparr>fuel_points := fuel_points r + amount\<rparr>) s3)
        in Inr (\<lparr>ms_fp_earned = amount, ms_verification_count = current_verification_count,
                 ms_challenge_completed = challenge_completed,
                 ms_swallowed = swallowed @ filter fails [EarningInsert, DailyFpUpsert, UserUpdate]\<rparr>,
                s4))"

text \<open>
  The function. \<open>auth_uid\<close> is \<open>auth.uid()\<close>, \<open>today_date\<close> is \<open>CURRENT_DATE\<close>, \<open>now\<close> is
  \<open>NOW()\<close>. An error result comes with the state the call started from: the two early
  \<open>RETURN\<close>s stand before any write, and the outer handler rolls the writes back.
\<close>

definition handle_morning_basics_completion ::
  "(mb_step \<Rightarrow> bool) \<Rightarrow> uuid option \<Rightarrow> date \<Rightarrow> timestamp \<Rightarrow> db \<Rightarrow> (mb_error + mb_success) \<times> db" where
  "handle_morning_basics_completion fails auth_uid today_date now s =
     (case auth_uid of
        None \<Rightarrow> (Inl NotAuthenticated, s)
      | Some current_user_id \<Rightarrow>
          if list_ex (\<lambda>a. ca_user_id a = current_user_id \<and> ca_action_id a = ''morning_basics_daily'' \<and>
                          ca_completed_date a = today_date) (completed_actions s)
          then (Inl AlreadyCompletedToday, s)
          else
            let user_name = map_option u_name (select_user s current_user_id);
                has_completed_challenge =
                  list_ex (\<lambda>c. cc_user_id c = current_user_id \<and> cc_challenge_id c = ''mb0'')
                    (completed_challenges s)
            in (case mb_challenge_step fails current_user_id now user_name has_completed_challenge s of
                  Inl step \<Rightarrow> (Inl (SqlError step), s)
                | Inr (current_verification_count, challenge_completed, swallowed, s1) \<Rightarrow>
                    (case mb_award_step fails current_user_id today_date now user_name
                            current_verification_count challenge_completed swallowed s1 of
                       Inl step' \<Rightarrow> (Inl (SqlError step'), s)
                     | Inr (r, s2) \<Rightarrow> (Inr r, s2))))"

section \<open>\<open>complete_custom_challenge_daily\<close> (migration 20250705135508)\<close>

text \<open>\<open>p_challenge_id::TEXT\<close>: the text of a key, here its decimal digits.\<close>

fun uuid_text :: "uuid \<Rightarrow> string" where
  "uuid_text n =
     (if n < 10 then [char_of (48 + n)] else uuid_text (n div 10) @ [char_of (48 + n mod 10)])"

text \<open>
  The argument \<open>p_completed_actions\<close> is text. It is not JSON at all, or JSON that is not an
  array (\<open>jsonb_array_elements\<close> raises), or an array; of an element only
  \<open>(v_action->>'action_id')::UUID\<close> is used: a key, \<open>NULL\<close> when the field is missing, or
  text that is no UUID (the cast raises).
\<close>

datatype action_ref = ActionId uuid | NoActionId | BadActionId

datatype actions_json = InvalidJson | NotAnArray | ActionArray "action_ref list"

datatype cc_error =
  InvalidJsonFormat | ChallengeNotFound | ChallengeNotActive | ChallengeAlreadyCompletedToday
| CcSqlError

record cc_success =
  cs_daily_completion_id :: nat
  cs_minimum_met :: bool
  cs_actions_completed :: int
  cs_fp_earned :: int
  cs_is_completed :: bool
  cs_total_completions :: int
  cs_progress :: rat

text \<open>
  The loop over the array elements; \<open>None\<close> when a statement raises. The arguments after
  the elements are \<open>v_actions_completed\<close> and the state.
\<close>

fun cc_actions_loop ::
  "uuid \<Rightarrow> nat \<Rightarrow> action_ref list \<Rightarrow> int \<Rightarrow> db \<Rightarrow> (int \<times> db) option" where
  "cc_actions_loop p_challenge_id v_daily_completion_id [] v_actions_completed s =
     Some (v_actions_completed, s)"
| "cc_actions_loop p_challenge_id v_daily_completion_id (BadActionId # rest) v_actions_completed s =
     None"
| "cc_actions_loop p_challenge_id v_daily_completion_id (NoActionId # rest) v_actions_completed s =
     cc_actions_loop p_challenge_id v_daily_completion_id rest v_actions_completed s"
| "cc_actions_loop p_challenge_id v_daily_completion_id (ActionId v_action_id # rest)
       v_actions_completed s =
     (if list_ex (\<lambda>a. cua_id a = v_action_id \<and> cua_custom_challenge_id a = p_challenge_id)
           (custom_challenge_actions s)
      then cc_actions_loop p_challenge_id v_daily_completion_id rest (v_actions_completed + 1)
             (s\<lparr>custom_challenge_action_completions := custom_challenge_action_completions s @
                 [\<lparr>cac_daily_completion_id = v_daily_completion_id, cac_action_id = v_action_id,
                   cac_completed = True\<rparr>]\<rparr>)
      else cc_actions_loop p_challenge_id v_daily_completion_id rest v_actions_completed s)"

text \<open>The ledger entry of a custom challenge: the daily reward or the completion bonus.\<close>

definition cc_earning :: "uuid \<Rightarrow> uuid \<Rightarrow> string \<Rightarrow> int \<Rightarrow> string option \<Rightarrow> timestamp \<Rightarrow> fp_earning" where
  "cc_earning p_user_id p_challenge_id name amount v_user_name now =
     \<lparr>fe_user_id = p_user_id, fe_item_id = uuid_text p_challenge_id, fe_item_name = name,
      fe_item_type = ''challenge'', fe_fp_amount = amount, fe_user_name = v_user_name,
      fe_earned_at = now\<rparr>"

text \<open>
  ``Update or insert into daily_fp table'': the row of the user and day gets the reward and
  one more completed challenge, or is created (\<open>boosts_completed\<close> at its default, taken to
  be 0).
\<close>

definition cc_daily_fp :: "uuid \<Rightarrow> date \<Rightarrow> int \<Rightarrow> string option \<Rightarrow> db \<Rightarrow> db" where
  "cc_daily_fp p_user_id v_today v_fp_earned v_user_name s =
     (case first_index (\<lambda>r. df_user_id r = p_user_id \<and> df_date r = v_today) (daily_fp s) of
        Some v_daily_fp_id \<Rightarrow>
          s\<lparr>daily_fp := (daily_fp s)[v_daily_fp_id := (daily_fp s ! v_daily_fp_id)
              \<lparr>df_fp_earned := df_fp_earned (daily_fp s ! v_daily_fp_id) + v_fp_earned,
               df_challenges_completed := df_challenges_completed (daily_fp s ! v_daily_fp_id) + 1\<rparr>]\<rparr>
      | None \<Rightarrow>
          s\<lparr>daily_fp := daily_fp s @
              [\<lparr>df_user_id = p_user_id, df_date = v_today, df_fp_earned = v_fp_earned,
                df_boosts_completed = 0, df_challenges_completed = 1, df_user_name = v_user_name\<rparr>]\<rparr>)"

text \<open>
  \<open>UPDATE custom_challenges SET total_completions = total_completions + 1, \<dots> WHERE id =
  p_challenge_id\<close>, as a change of the row. The division raises when
  \<open>target_completions\<close> is 0; the caller checks that first.
\<close>

definition cc_count_completion :: "date \<Rightarrow> custom_challenge \<Rightarrow> custom_challenge" where
  "cc_count_completion v_today c =
     c\<lparr>cuc_total_completions := cuc_total_completions c + 1,
       cuc_last_completion_date := Some v_today,
       cuc_progress := min ((of_int (cuc_total_completions c + 1) /
                             of_int (cuc_target_completions c)) * 100) 100\<rparr>"

definition update_custom_challenge ::
  "uuid \<Rightarrow> (custom_challenge \<Rightarrow> custom_challenge) \<Rightarrow> db \<Rightarrow> db" where
  "update_custom_challenge p_challenge_id f s =
     s\<lparr>custom_challenges :=
         map (\<lambda>c. if cuc_id c = p_challenge_id then f c else c) (custom_challenges s)\<rparr>"

text \<open>
  The \<open>IF v_minimum_met THEN \<dots> END IF\<close> part: \<open>None\<close> when the division raises, else
  \<open>v_fp_earned\<close>, \<open>v_is_completed\<close>, \<open>v_total_completions\<close>, \<open>v_progress\<close> and the state.
\<close>

definition cc_reward ::
  "uuid \<Rightarrow> uuid \<Rightarrow> custom_challenge \<Rightarrow> string option \<Rightarrow> date \<Rightarrow> timestamp \<Rightarrow> db \<Rightarrow>
   (int \<times> bool \<times> int \<times> rat \<times> db) option" where
  "cc_reward p_user_id p_challenge_id v_challenge v_user_name v_today now s =
     (let v_fp_earned = cuc_fp_daily_reward v_challenge;
          s1 = s\<lparr>fp_earnings := fp_earnings s @
                 [cc_earning p_user_id p_challenge_id (cuc_name v_challenge) v_fp_earned
                    v_user_name now]\<rparr>;
          s2 = cc_daily_fp p_user_id v_today v_fp_earned v_user_name s1
      in if list_ex (\<lambda>c. cuc_id c = p_challenge_id \<and> cuc_target_completions c = 0)
              (custom_challenges s2)
         then None
         else
           let s3 = update_custom_challenge p_challenge_id (cc_count_completion v_today) s2;
               (v_total_completions, v_progress) =
                 (case find (\<lambda>c. cuc_id c = p_challenge_id) (custom_challenges s3) of
                    None \<Rightarrow> (0, 0)
                  | Some c \<Rightarrow> (cuc_total_completions c, cuc_progress c))
           in if v_total_completions \<ge> cuc_target_completions v_challenge
              then
                let s4 = update_custom_challenge p_challenge_id
                           (\<lambda>c. c\<lparr>cuc_status := ''completed'', cuc_completed_at := Some now\<rparr>) s3;
                    s5 = s4\<lparr>fp_earnings := fp_earnings s4 @
                           [cc_earning p_user_id p_challenge_id (cuc_name v_challenge)
                              (cuc_fp_completion_reward v_challenge) v_user_name now]\<rparr>;
                    s6 = s5\<lparr>daily_fp :=
                           map (\<lambda>r. if df_user_id r = p_user_id \<and> df_date r = v_today
                                     then r\<lparr>df_fp_earned := df_fp_earned r +
                                              cuc_fp_completion_reward v_challenge\<rparr>
                                     else r) (daily_fp s5)\<rparr>;
                    v_fp_total = v_fp_earned + cuc_fp_completion_reward v_challenge
                in Some (v_fp_total, True, v_total_completions, v_progress,
                     update_user p_user_id
                       (\<lambda>r. r\<lparr>fuel_points := fuel_points r + v_fp_total, days_since_fp := 0\<rparr>) s6)
              else Some (v_fp_earned, False, v_total_completions, v_progress,
                     update_user p_user_id
                       (\<lambda>r. r\<lparr>fuel_points := fuel_points r + v_fp_earned, days_since_fp := 0\<rparr>) s3))"

text \<open>
  The statements from ``Create daily completion record'' to the success object; \<open>None\<close> when
  one of them raises.
\<close>

definition cc_body ::
  "uuid \<Rightarrow> uuid \<Rightarrow> custom_challenge \<Rightarrow> actions_json \<Rightarrow> string option \<Rightarrow> date \<Rightarrow> timestamp \<Rightarrow>
   db \<Rightarrow> (cc_success \<times> db) option" where
  "cc_body p_user_id p_challenge_id v_challenge v_parsed_actions v_user_name v_today now s =
     (let v_daily_completion_id = length (custom_challenge_daily_completions s);
          s1 = s\<lparr>custom_challenge_daily_completions := custom_challenge_daily_completions s @
                 [\<lparr>cdc_custom_challenge_id = p_challenge_id, cdc_user_id = p_user_id,
                   cdc_completion_date = v_today, cdc_actions_completed = 0,
                   cdc_minimum_met = False\<rparr>]\<rparr>
      in case v_parsed_actions of
           InvalidJson \<Rightarrow> None
         | NotAnArray \<Rightarrow> None
         | ActionArray elems \<Rightarrow>
             (case cc_actions_loop p_challenge_id v_daily_completion_id elems 0 s1 of
                None \<Rightarrow> None
              | Some (v_actions_completed, s2) \<Rightarrow>
                  let v_minimum_met = (v_actions_completed \<ge> cuc_daily_minimum v_challenge);
                      s3 = s2\<lparr>custom_challenge_daily_completions :=
                             (custom_challenge_daily_completions s2)[v_daily_completion_id :=
                                (custom_challenge_daily_completions s2 ! v_daily_completion_id)
                                  \<lparr>cdc_actions_completed := v_actions_completed,
                                   cdc_minimum_met := v_minimum_met\<rparr>]\<rparr>
                  in if v_minimum_met
                     then
                       (case cc_reward p_user_id p_challenge_id v_challenge v_user_name v_today now s3 of
                          None \<Rightarrow> None
                        | Some (v_fp_earned, v_is_completed, v_total_completions, v_progress, s4) \<Rightarrow>
                            Some (\<lparr>cs_daily_completion_id = v_daily_completion_id,
                                    cs_minimum_met = v_minimum_met,
                                    cs_actions_completed = v_actions_completed,
                                    cs_fp_earned = v_fp_earned, cs_is_completed = v_is_completed,
                                    cs_total_completions = v_total_completions,
                                    cs_progress = v_progress\<rparr>, s4))
                     else Some (\<lparr>cs_daily_completion_id = v_daily_completion_id,
                                  cs_minimum_met = v_minimum_met,
                                  cs_actions_completed = v_actions_completed,
                                  cs_fp_earned = 0, cs_is_completed = False,
                                  cs_total_completions = 0, cs_progress = 0\<rparr>, s3)))"

text \<open>The row the exception handler adds to \<open>debug_logs\<close>.\<close>

definition cc_failure_log :: "uuid \<Rightarrow> debug_log" where
  "cc_failure_log p_challenge_id =
     \<lparr>dl_operation = ''complete_custom_challenge_daily'', dl_table_name = ''custom_challenges'',
      dl_record_id = uuid_text p_challenge_id, dl_success = False\<rparr>"

text \<open>
  The function. \<open>raises\<close> says that the storage engine raises in some statement of the body;
  the body also raises by itself on an argument that is not an array, on an \<open>action_id\<close> that
  is no UUID, and on a division by zero. The \<open>EXCEPTION WHEN OTHERS\<close> handler then rolls the
  writes back, adds a row to \<open>debug_logs\<close> and returns the error object. The four early
  \<open>RETURN\<close>s stand before any write.
\<close>

definition complete_custom_challenge_daily ::
  "bool \<Rightarrow> uuid \<Rightarrow> uuid \<Rightarrow> actions_json \<Rightarrow> date \<Rightarrow> timestamp \<Rightarrow> db \<Rightarrow> (cc_error + cc_success) \<times> db" where
  "complete_custom_challenge_daily raises p_user_id p_challenge_id p_completed_actions v_today now s =
     (if p_completed_actions = InvalidJson then (Inl InvalidJsonFormat, s)
      else
        let v_user_name = map_option u_name (select_user s p_user_id)
        in case find (\<lambda>c. cuc_id c = p_challenge_id \<and> cuc_user_id c = p_user_id) (custom_challenges s) of
             None \<Rightarrow> (Inl ChallengeNotFound, s)
           | Some v_challenge \<Rightarrow>
               if cuc_status v_challenge \<noteq> ''active'' then (Inl ChallengeNotActive, s)
               else if list_ex (\<lambda>d. cdc_custom_challenge_id d = p_challenge_id \<and>
                                    cdc_completion_date d = v_today)
                         (custom_challenge_daily_completions s)
               then (Inl ChallengeAlreadyCompletedToday, s)
               else
                 (case (if raises then None
                        else cc_body p_user_id p_challenge_id v_challenge p_completed_actions
                               v_user_name v_today now s) of
                    None \<Rightarrow>
                      (Inl CcSqlError,
                       s\<lparr>debug_logs := debug_logs s @ [cc_failure_log p_challenge_id]\<rparr>)
                  | Some (r, s') \<Rightarrow> (Inr r, s')))"

section \<open>\<open>calculate_daily_user_insights\<close> (discarded migration 20250609120414)\<close>

text \<open>
  Aggregates. \<open>count_rows P t\<close> is \<open>SELECT COUNT(*) FROM t WHERE P\<close>. \<open>AVG\<close>, \<open>SUM\<close> and
  \<open>MAX\<close> skip \<open>NULL\<close>s and are \<open>NULL\<close> when nothing is left.
\<close>

definition count_rows :: "('a \<Rightarrow> bool) \<Rightarrow> 'a list \<Rightarrow> int" where
  "count_rows P t = int (length (filter P t))"

definition non_null :: "'a option list \<Rightarrow> 'a list" where
  "non_null xs = concat (map (\<lambda>x. case x of None \<Rightarrow> [] | Some v \<Rightarrow> [v]) xs)"

definition sql_avg :: "rat option list \<Rightarrow> rat option" where
  "sql_avg xs =
     (if non_null xs = [] then None
      else Some (sum_list (non_null xs) / of_nat (length (non_null xs))))"

definition sql_sum :: "'a::comm_monoid_add option list \<Rightarrow> 'a option" where
  "sql_sum xs = (if non_null xs = [] then None else Some (sum_list (non_null xs)))"

definition sql_max :: "int option list \<Rightarrow> int option" where
  "sql_max xs = (if non_null xs = [] then None else Some (Max (set (non_null xs))))"

text \<open>
  Assignment to a variable declared \<open>numeric(p, s)\<close> rounds to \<open>s\<close> decimals, half away
  from zero, and raises \<open>numeric_value_out_of_range\<close> when the rounded value has more than
  \<open>p - s\<close> digits before the point; assignment of a sum to an \<open>integer\<close> variable raises the
  same error outside the 32-bit range. A \<open>NULL\<close> is assigned as it is.
\<close>

definition round_to :: "nat \<Rightarrow> rat \<Rightarrow> rat" where
  "round_to sc x =
     (if x \<ge> 0 then of_int \<lfloor>x * 10 ^ sc + 1 / 2\<rfloor> / 10 ^ sc
      else - (of_int \<lfloor>- x * 10 ^ sc + 1 / 2\<rfloor> / 10 ^ sc))"

definition fits_numeric :: "nat \<Rightarrow> nat \<Rightarrow> rat option \<Rightarrow> bool" where
  "fits_numeric p sc x =
     (case x of None \<Rightarrow> True | Some v \<Rightarrow> \<bar>round_to sc v\<bar> < 10 ^ (p - sc))"

definition fits_int4 :: "int option \<Rightarrow> bool" where
  "fits_int4 x = (case x of None \<Rightarrow> True | Some v \<Rightarrow> - 2147483648 \<le> v \<and> v \<le> 2147483647)"

datatype sql_error = NumericValueOutOfRange

text \<open>
  \<open>DISTINCT ON (user_id) \<dots> ORDER BY user_id, created_at DESC\<close>: the rows are sorted by
  user and, within a user, from the latest \<open>created_at\<close> back; of each run of rows of one
  user the first is kept.
\<close>

fun distinct_on_user :: "health_assessment list \<Rightarrow> health_assessment list" where
  "distinct_on_user [] = []"
| "distinct_on_user [r] = [r]"
| "distinct_on_user (r # r' # rs) =
     (if ha_user_id r = ha_user_id r' then distinct_on_user (r # rs)
      else r # distinct_on_user (r' # rs))"

definition latest_assessments :: "health_assessment list \<Rightarrow> date \<Rightarrow> health_assessment list" where
  "latest_assessments t p_date =
     distinct_on_user
       (sort_key (\<lambda>r. (ha_user_id r, - ha_created_at r))
          (filter (\<lambda>r. DATE (ha_created_at r) \<le> p_date) t))"

definition averages_of :: "health_assessment list \<Rightarrow> category_averages" where
  "averages_of la =
     \<lparr>avg_mindset = sql_avg (map mindset_score la), avg_sleep = sql_avg (map sleep_score la),
      avg_exercise = sql_avg (map exercise_score la),
      avg_nutrition = sql_avg (map nutrition_score la),
      avg_biohacking = sql_avg (map biohacking_score la)\<rparr>"

text \<open>
  The device statistics: the inner query groups the active devices by provider; the outer
  one counts the groups and pairs each provider that is not \<open>NULL\<close> with its number of
  devices (a JSON object, whose key order does not matter; here in order of first
  appearance).
\<close>

definition device_connection_stats :: "user_device list \<Rightarrow> int \<times> (string \<times> int) list" where
  "device_connection_stats t =
     (let active = filter (\<lambda>d. ud_status d = ''active'') t
      in (int (length (remdups (map ud_provider active))),
          map (\<lambda>p. (p, count_rows (\<lambda>d. ud_provider d = Some p) active))
            (remdups (non_null (map ud_provider active)))))"

text \<open>
  The verification posts of the day joined with the contests of the same user whose
  \<open>challenge_id\<close>, prefixed with \<open>c_\<close>, is the chat id.
\<close>

definition contest_verifications :: "chat_message list \<Rightarrow> active_contest list \<Rightarrow> date \<Rightarrow> int" where
  "contest_verifications cms acs p_date =
     sum_list (map (\<lambda>cm. count_rows (\<lambda>ac. cm_chat_id cm = ''c_'' @ ac_challenge_id ac \<and>
                                        cm_user_id cm = ac_user_id ac) acs)
       (filter (\<lambda>cm. DATE (cm_created_at cm) = p_date \<and> cm_is_verification cm) cms))"

text \<open>
  The values the function selects into its variables, as the row it then writes; the error
  when an assignment raises. \<open>v_morning_basics_actions\<close> and \<open>v_other_challenge_actions\<close>
  are the two counts whose sum is \<open>challenge_actions\<close>.
\<close>

definition compute_insights :: "date \<Rightarrow> db \<Rightarrow> sql_error + insight_row" where
  "compute_insights p_date s =
     (let v_active_users =
            int (length (remdups (map df_user_id
              (filter (\<lambda>r. df_date r = p_date \<and> df_fp_earned r > 0) (daily_fp s)))));
          v_average_health_score = sql_avg (map health_score (users s));
          v_average_healthspan_years = sql_avg (map healthspan_years (users s));
          v_total_healthspan_years = sql_sum (map healthspan_years (users s));
          v_total_fp_earned =
            sum_list (map df_fp_earned (filter (\<lambda>r. df_date r = p_date) (daily_fp s)));
          v_average_fp_per_user =
            (if v_active_users > 0 then of_int v_total_fp_earned / of_int v_active_users else 0);
          v_total_lifetime_fp = sql_sum (map lifetime_fp (users s));
          v_average_level = sql_avg (map (map_option of_int) (map u_level (users s)));
          v_morning_basics_actions =
            count_rows (\<lambda>a. ca_completed_date a = p_date \<and> ca_action_id a = ''morning_basics_daily'')
              (completed_actions s);
          v_other_challenge_actions =
            count_rows (\<lambda>a. ca_completed_date a = p_date \<and> ca_action_id a \<noteq> ''morning_basics_daily'')
              (completed_actions s)
      in if fits_numeric 4 2 v_average_health_score \<and> fits_numeric 4 2 v_average_healthspan_years \<and>
            fits_numeric 8 2 v_total_healthspan_years \<and> fits_int4 (Some v_total_fp_earned) \<and>
            fits_numeric 8 2 (Some v_average_fp_per_user) \<and> fits_int4 v_total_lifetime_fp \<and>
            fits_numeric 4 2 v_average_level
         then Inr
           \<lparr>ai_date = p_date,
            ai_total_users = count_rows (\<lambda>u. True) (users s),
            ai_active_users = v_active_users,
            ai_new_users = count_rows (\<lambda>u. DATE (u_created_at u) = p_date) (users s),
            ai_average_health_score = map_option (round_to 2) v_average_health_score,
            ai_average_healthspan_years = map_option (round_to 2) v_average_healthspan_years,
            ai_total_healthspan_years = map_option (round_to 2) v_total_healthspan_years,
            ai_category_averages = averages_of (latest_assessments (health_assessments s) p_date),
            ai_total_fp_earned = v_total_fp_earned,
            ai_average_fp_per_user = round_to 2 v_average_fp_per_user,
            ai_total_boosts_completed =
              count_rows (\<lambda>b. cb_completed_date b = p_date) (completed_boosts s),
            ai_total_challenges_completed =
              count_rows (\<lambda>c. DATE (cc_completed_at c) = p_date) (completed_challenges s),
            ai_total_quests_completed =
              count_rows (\<lambda>q. DATE (cq_completed_at q) = p_date) (completed_quests s),
            ai_total_contests_active =
              count_rows (\<lambda>c. ac_status c = ''active'' \<and>
                  (DATE (ac_created_at c) = p_date \<or> DATE (ac_updated_at c) = p_date))
                (active_contests s),
            ai_total_chat_messages =
              count_rows (\<lambda>m. DATE (cm_created_at m) = p_date) (chat_messages s),
            ai_total_verification_posts =
              count_rows (\<lambda>m. DATE (cm_created_at m) = p_date \<and> cm_is_verification m)
                (chat_messages s),
            ai_device_connection_stats = device_connection_stats (user_devices s),
            ai_total_lifetime_fp = v_total_lifetime_fp,
            ai_average_level = map_option (round_to 2) v_average_level,
            ai_highest_level = sql_max (map u_level (users s)),
            ai_total_lifetime_boosts = count_rows (\<lambda>b. True) (completed_boosts s),
            ai_total_lifetime_challenges = count_rows (\<lambda>c. True) (completed_challenges s),
            ai_total_lifetime_quests = count_rows (\<lambda>q. True) (completed_quests s),
            ai_total_lifetime_chat_messages = count_rows (\<lambda>m. True) (chat_messages s),
            ai_total_lifetime_verification_posts = count_rows cm_is_verification (chat_messages s),
            ai_challenge_actions = v_morning_basics_actions + v_other_challenge_actions,
            ai_contest_registrations =
              count_rows (\<lambda>r. DATE (cr_registered_at r) = p_date) (contest_registrations s),
            ai_challenge_registrations =
              count_rows (\<lambda>c. DATE (ch_started_at c) = p_date) (challenges s),
            ai_cosmo_chats =
              count_rows (\<lambda>m. DATE (ccm_created_at m) = p_date) (cosmo_chat_messages s),
            ai_contest_verifications =
              contest_verifications (chat_messages s) (active_contests s) p_date,
            ai_health_assessments =
              count_rows (\<lambda>a. DATE (ha_created_at a) = p_date) (health_assessments s)\<rparr>
         else Inl NumericValueOutOfRange)"

text \<open>
  ``Insert or update the record'': the row of the date, when there is one, is overwritten
  in place (the first one, \<open>WHERE id = v_existing_record_id\<close>); else the row is appended.
\<close>

definition upsert_insight :: "insight_row \<Rightarrow> insight_row list \<Rightarrow> insight_row list" where
  "upsert_insight row t =
     (case first_index (\<lambda>r. ai_date r = ai_date row) t of
        None \<Rightarrow> t @ [row]
      | Some v_existing_record_id \<Rightarrow> t[v_existing_record_id := row])"

text \<open>
  The function has no exception handler: an error ends it without a write. It returns
  \<open>true\<close> otherwise, modelled by the new state.
\<close>

definition calculate_daily_user_insights :: "date \<Rightarrow> db \<Rightarrow> sql_error + db" where
  "calculate_daily_user_insights p_date s =
     (case compute_insights p_date s of
        Inl e \<Rightarrow> Inl e
      | Inr row \<Rightarrow> Inr (s\<lparr>all_user_insights := upsert_insight row (all_user_insights s)\<rparr>))"

section \<open>Notions used in the statements about the challenge functions\<close>


definition cc_row_after :: "bool \<Rightarrow> date \<Rightarrow> timestamp \<Rightarrow> custom_challenge \<Rightarrow> custom_challenge" where
  "cc_row_after compl today now x =
     (if compl
      then (cc_count_completion today x)\<lparr>cuc_status := ''completed'', cuc_completed_at := Some now\<rparr>
      else cc_count_completion today x)"

section \<open>The streak as the specification words it\<close>

text \<open>
  The specification's \<open>current_streak\<close>: the count of consecutive calendar days ending today
  or yesterday with at least one qualifying event, 0 if the most recent qualifying day is
  further in the past than yesterday. \<open>qualifying\<close> lists the dates of the user's qualifying
  events; a run of days cannot be longer than that list.
\<close>

definition spec_current_streak :: "date list \<Rightarrow> date \<Rightarrow> int" where
  "spec_current_streak qualifying today =
     (if today \<in> set qualifying
      then int (consec_days (\<lambda>d. d \<in> set qualifying) today (length qualifying))
      else if today - 1 \<in> set qualifying
      then int (consec_days (\<lambda>d. d \<in> set qualifying) (today - 1) (length qualifying))
      else 0)"

text \<open>The dates of a user's completed boosts: the qualifying events of the latest revision.\<close>

definition boost_dates :: "completed_boost list \<Rightarrow> uuid \<Rightarrow> date list" where
  "boost_dates cbs p_user_id = map cb_completed_date (filter (\<lambda>r. cb_user_id r = p_user_id) cbs)"

text \<open>The invariant \<open>longest_streak \<ge> current_streak\<close> of a row of \<open>users\<close>.\<close>

definition streak_inv :: "user_row \<Rightarrow> bool" where
  "streak_inv r = (coalesce0 (burn_streak r) \<le> coalesce0 (longest_burn_streak r))"

section \<open>Example data\<close>

text \<open>
  \<open>boost_run u d n\<close>: user \<open>u\<close> completed one boost on each of the \<open>n\<close> consecutive days
  that end on day \<open>d\<close>.
\<close>

definition boost_run :: "uuid \<Rightarrow> date \<Rightarrow> nat \<Rightarrow> completed_boost list" where
  "boost_run u d n =
     map (\<lambda>i. \<lparr>cb_id = i, cb_user_id = u, cb_boost_id = ''boost'', cb_completed_date = d - int i\<rparr>)
       [0..<n]"

definition three_users :: db where
  "three_users = empty_db\<lparr>users := [new_user 1 ''ann'', new_user 2 ''bob'', new_user 3 ''cy''],
     completed_boosts := boost_run 1 (make_date 2025 6 3) 3 @ boost_run 3 (make_date 2025 6 3) 1\<rparr>"

text \<open>\<open>fails_for v\<close>: the recalculation of user \<open>v\<close>, and of no other user, raises.\<close>

definition fails_for :: "uuid \<Rightarrow> uuid \<Rightarrow> bool" where
  "fails_for v u = (u = v)"

text \<open>
  \<open>fp_run u d n\<close>: user \<open>u\<close> earned 10 points on each of the \<open>n\<close> consecutive days that end
  on day \<open>d\<close>; \<open>boost_earnings u d n\<close>: the ledger entries of one boost at noon of each of
  those days.
\<close>

definition fp_run :: "uuid \<Rightarrow> date \<Rightarrow> nat \<Rightarrow> daily_fp_row list" where
  "fp_run u d n =
     map (\<lambda>i. \<lparr>df_user_id = u, df_date = d - int i, df_fp_earned = 10,
               df_boosts_completed = 1, df_challenges_completed = 0, df_user_name = None\<rparr>)
       [0..<n]"

definition boost_earnings :: "uuid \<Rightarrow> date \<Rightarrow> nat \<Rightarrow> fp_earning list" where
  "boost_earnings u d n =
     map (\<lambda>i. \<lparr>fe_user_id = u, fe_item_id = ''boost'', fe_item_name = ''Boost'',
               fe_item_type = ''boost'', fe_fp_amount = 10, fe_user_name = None,
               fe_earned_at = (d - int i) * 86400000000 + 43200000000\<rparr>)
       [0..<n]"

text \<open>
  \<open>june_db\<close>: one user with boosts on 2025-06-01, 2025-06-02 and 2025-06-03.
  \<open>streak3_db\<close>: that user after \<open>recalculate_burn_streak\<close> on 2025-06-03.
  \<open>day4_boost\<close>: the user's first boost of 2025-06-04, and \<open>day4_db\<close> the state once it is
  inserted. \<open>earner_db\<close>: a new user who earned points on 2025-06-02 and 2025-06-03.
\<close>

definition june_db :: db where
  "june_db = empty_db\<lparr>users := [new_user 7 ''uma''],
     completed_boosts := boost_run 7 (make_date 2025 6 3) 3\<rparr>"

definition streak3_db :: db where
  "streak3_db = snd (recalculate_burn_streak (fails_for 0) (make_date 2025 6 3) 7 june_db)"

definition day4_boost :: completed_boost where
  "day4_boost = \<lparr>cb_id = 3, cb_user_id = 7, cb_boost_id = ''boost'',
     cb_completed_date = make_date 2025 6 4\<rparr>"

definition day4_db :: db where
  "day4_db = streak3_db\<lparr>completed_boosts := completed_boosts streak3_db @ [day4_boost]\<rparr>"

definition earner_db :: db where
  "earner_db = empty_db\<lparr>users := [new_user 7 ''uma''], daily_fp := fp_run 7 (make_date 2025 6 3) 2\<rparr>"

definition yesterday_db :: db where
  "yesterday_db = empty_db\<lparr>users := [new_user 7 ''uma''],
     completed_boosts := boost_run 7 (make_date 2025 6 2) 2,
     daily_fp := fp_run 7 (make_date 2025 6 2) 2\<rparr>"

text \<open>
  \<open>no_faults\<close>: no statement raises; \<open>only_fails x\<close>: statement \<open>x\<close> raises and no other.
  \<open>noon d\<close>: the timestamp of 12:00 on day \<open>d\<close>. \<open>mb_days u d k s\<close>: user \<open>u\<close> calls
  \<open>handle_morning_basics_completion\<close> once a day at noon on the \<open>k\<close> days from \<open>d\<close> on.
  \<open>mb_start\<close>: one user, no activity yet.
\<close>

definition no_faults :: "mb_step \<Rightarrow> bool" where
  "no_faults x = False"

definition only_fails :: "mb_step \<Rightarrow> mb_step \<Rightarrow> bool" where
  "only_fails x y = (y = x)"

definition noon :: "date \<Rightarrow> timestamp" where
  "noon d = d * 86400000000 + 43200000000"

definition mb_days :: "uuid \<Rightarrow> date \<Rightarrow> nat \<Rightarrow> db \<Rightarrow> db" where
  "mb_days u d k s =
     foldl (\<lambda>s i. snd (handle_morning_basics_completion no_faults (Some u) (d + int i)
                         (noon (d + int i)) s)) s [0..<k]"

definition mb_start :: db where
  "mb_start = empty_db\<lparr>users := [new_user 7 ''uma'']\<rparr>"

text \<open>The sum of a user's ledger entries, and the user's entries for the item \<open>mb0\<close>.\<close>

definition ledger_total :: "db \<Rightarrow> uuid \<Rightarrow> int" where
  "ledger_total s u = sum_list (map fe_fp_amount (filter (\<lambda>e. fe_user_id e = u) (fp_earnings s)))"

definition bonus_entries :: "db \<Rightarrow> uuid \<Rightarrow> fp_earning list" where
  "bonus_entries s u = filter (\<lambda>e. fe_user_id e = u \<and> fe_item_id e = ''mb0'') (fp_earnings s)"

text \<open>
  \<open>cc_start\<close>: user 7 owns the active custom challenge 40 (at least one action a day, 10
  points a day, 100 for the 21st completion) with the action 50.
\<close>

definition cc_start :: db where
  "cc_start = empty_db\<lparr>users := [new_user 7 ''uma''],
     custom_challenges :=
       [\<lparr>cuc_id = 40, cuc_user_id = 7, cuc_name = ''Walk'', cuc_status = ''active'',
         cuc_daily_minimum = 1, cuc_fp_daily_reward = 10, cuc_fp_completion_reward = 100,
         cuc_target_completions = 21, cuc_total_completions = 0,
         cuc_last_completion_date = None, cuc_progress = 0, cuc_completed_at = None\<rparr>],
     custom_challenge_actions := [\<lparr>cua_id = 50, cua_custom_challenge_id = 40\<rparr>]\<rparr>"

text \<open>
  \<open>mb_summary s u\<close>: the user's \<open>fuel_points\<close>, the sum of the user's ledger entries, the
  number of the user's bonus ledger entries, and the sum of the user's \<open>daily_fp\<close> rows.
  \<open>day_21_db\<close>: the state after 21 daily completions, 2025-06-01 to 2025-06-21.
\<close>

definition mb_summary :: "db \<Rightarrow> uuid \<Rightarrow> int list \<times> int \<times> nat \<times> int" where
  "mb_summary s u =
     (map fuel_points (filter (\<lambda>r. u_id r = u) (users s)), ledger_total s u,
      length (bonus_entries s u),
      sum_list (map df_fp_earned (filter (\<lambda>r. df_user_id r = u) (daily_fp s))))"

definition day_21_db :: db where
  "day_21_db = mb_days 7 (make_date 2025 6 1) 21 mb_start"

text \<open>
  Single calls on 2025-06-01 from the start states: without a failure, with one failing
  statement, and with an \<open>action_id\<close> that is no UUID.
\<close>

definition mb_first_call :: "(mb_error + mb_success) \<times> db" where
  "mb_first_call = handle_morning_basics_completion no_faults (Some 7) (make_date 2025 6 1)
     (noon (make_date 2025 6 1)) mb_start"

definition cc_first_call :: "(cc_error + cc_success) \<times> db" where
  "cc_first_call = complete_custom_challenge_daily False 7 40 (ActionArray [ActionId 50])
     (make_date 2025 6 1) (noon (make_date 2025 6 1)) cc_start"

definition mb_call_failing :: "mb_step \<Rightarrow> (mb_error + mb_success) \<times> db" where
  "mb_call_failing x = handle_morning_basics_completion (only_fails x) (Some 7)
     (make_date 2025 6 1) (noon (make_date 2025 6 1)) mb_start"


text \<open>The sort key of \<open>ORDER BY user_id, created_at DESC\<close>.\<close>

definition assessment_key :: "health_assessment \<Rightarrow> uuid \<times> int" where
  "assessment_key r = (ha_user_id r, - ha_created_at r)"

text \<open>
  \<open>insights_db\<close>: two users; user 1 earned 30 points on 2025-06-07 and has assessments at
  09:00 and at 18:00 of that day and at noon of the next day; user 2 has one assessment, at
  noon of 2025-06-06. \<open>snapshot_once\<close>: the state after the snapshot of 2025-06-07.
\<close>

definition assessment :: "uuid \<Rightarrow> timestamp \<Rightarrow> rat \<Rightarrow> health_assessment" where
  "assessment u ts score =
     \<lparr>ha_user_id = u, ha_created_at = ts, mindset_score = Some score, sleep_score = Some score,
      exercise_score = Some score, nutrition_score = None, biohacking_score = Some score\<rparr>"

definition insights_db :: db where
  "insights_db = empty_db
     \<lparr>users := [(new_user 1 ''ann'')\<lparr>health_score := Some (15 / 2), u_level := Some 3\<rparr>,
                (new_user 2 ''bob'')\<lparr>health_score := Some 8, u_level := Some 4\<rparr>],
      daily_fp := [\<lparr>df_user_id = 1, df_date = make_date 2025 6 7, df_fp_earned = 30,
                     df_boosts_completed = 3, df_challenges_completed = 0,
                     df_user_name = Some ''ann''\<rparr>],
      health_assessments :=
        [assessment 1 (noon (make_date 2025 6 7) - 10800000000) 6,
         assessment 2 (noon (make_date 2025 6 6)) 9,
         assessment 1 (noon (make_date 2025 6 8)) 10,
         assessment 1 (noon (make_date 2025 6 7) + 21600000000) 7]\<rparr>"

definition snapshot_once :: db where
  "snapshot_once =
     (case calculate_daily_user_insights (make_date 2025 6 7) insights_db of
        Inl e \<Rightarrow> insights_db
      | Inr s \<Rightarrow> s)"

section \<open>Properties of the streak calculation\<close>

lemma consec_days_le: "consec_days P d n \<le> n"
  by (induction n arbitrary: d) auto

lemma consec_days_cong:
  "(\<And>i. i < n \<Longrightarrow> P (d - int i) = Q (d - int i)) \<Longrightarrow> consec_days P d n = consec_days Q d n"
proof (induction n arbitrary: d)
  case 0
  then show ?case by simp
next
  case (Suc n)
  have head: "P d = Q d" using Suc.prems [of 0] by simp
  have "\<And>i. i < n \<Longrightarrow> P (d - 1 - int i) = Q (d - 1 - int i)"
  proof -
    fix i assume "i < n"
    then have "P (d - int (Suc i)) = Q (d - int (Suc i))" using Suc.prems [of "Suc i"] by simp
    then show "P (d - 1 - int i) = Q (d - 1 - int i)" by (simp add: algebra_simps)
  qed
  then have "consec_days P (d - 1) n = consec_days Q (d - 1) n" by (rule Suc.IH)
  with head show ?case by simp
qed

lemma consec_days_run:
  "(\<And>i. i < k \<Longrightarrow> P (d - int i)) \<Longrightarrow> k \<le> n \<Longrightarrow> (k < n \<Longrightarrow> \<not> P (d - int k)) \<Longrightarrow>
   consec_days P d n = k"
proof (induction n arbitrary: d k)
  case 0
  then show ?case by simp
next
  case (Suc n)
  show ?case
  proof (cases k)
    case 0
    with Suc.prems show ?thesis by simp
  next
    case (Suc j)
    have head: "P d" using Suc.prems(1) [of 0] Suc by simp
    have run: "\<And>i. i < j \<Longrightarrow> P (d - 1 - int i)"
    proof -
      fix i assume "i < j"
      then have "P (d - int (Suc i))" using Suc.prems(1) [of "Suc i"] Suc by simp
      then show "P (d - 1 - int i)" by (simp add: algebra_simps)
    qed
    have stop: "j < n \<Longrightarrow> \<not> P (d - 1 - int j)"
      using Suc.prems(3) Suc by (simp add: algebra_simps)
    have bound: "j \<le> n" using Suc.prems(2) Suc by simp
    have "consec_days P (d - 1) n = j"
      using run bound stop by (rule Suc.IH)
    with head Suc show ?thesis by simp
  qed
qed

lemma burn_streak_loop_consec:
  "0 \<le> k \<Longrightarrow> k < 100 \<Longrightarrow>
   burn_streak_loop cbs u d s k = s + int (consec_days (has_boost cbs u) d (nat (100 - k)))"
proof (induction cbs u d s k rule: burn_streak_loop.induct)
  case (1 cbs u d s k)
  obtain m where m: "nat (100 - k) = Suc m" "m = nat (100 - (k + 1))"
    using "1.prems" by (cases "nat (100 - k)") auto
  show ?case
  proof (cases "has_boost cbs u d")
    case False
    then show ?thesis using m by (subst burn_streak_loop.simps) simp
  next
    case hb: True
    show ?thesis
    proof (cases "k + 1 \<ge> v_max_days_to_check")
      case True
      then have "m = 0" using m "1.prems" by (simp add: v_max_days_to_check_def)
      then show ?thesis using hb True m by (subst burn_streak_loop.simps) simp
    next
      case False
      then have "k + 1 < 100" by (simp add: v_max_days_to_check_def)
      then have "burn_streak_loop cbs u (d - 1) (s + 1) (k + 1) =
                 s + 1 + int (consec_days (has_boost cbs u) (d - 1) (nat (100 - (k + 1))))"
        using "1.IH" hb False "1.prems" by simp
      then show ?thesis using hb False m by (subst burn_streak_loop.simps) simp
    qed
  qed
qed

lemma calculate_burn_streak_consec:
  "calculate_burn_streak cbs today u = int (consec_days (has_boost cbs u) today 100)"
  unfolding calculate_burn_streak_def
  using burn_streak_loop_consec [of 0 cbs u today 0] by simp

text \<open>
  C10. \<open>calculate_burn_streak\<close> is a total function (its loop terminates: the termination
  proof above bounds it by the 100-day safety limit); its result lies between 0 and 100;
  it depends on the completed boosts of the 100 days ending today only; and a user with a
  boost on each of those 100 days (so any unbroken run of 100 days or more) gets exactly 100.
\<close>

theorem calculate_burn_streak_capped:
  "0 \<le> calculate_burn_streak cbs today u \<and> calculate_burn_streak cbs today u \<le> 100 \<and>
   ((\<forall>i<100. has_boost cbs u (today - int i) = has_boost cbs' u (today - int i)) \<longrightarrow>
      calculate_burn_streak cbs today u = calculate_burn_streak cbs' today u) \<and>
   ((\<forall>i<100. has_boost cbs u (today - int i)) \<longrightarrow> calculate_burn_streak cbs today u = 100)"
proof -
  have le: "consec_days (has_boost cbs u) today 100 \<le> 100" by (rule consec_days_le)
  have dep: "(\<forall>i<100. has_boost cbs u (today - int i) = has_boost cbs' u (today - int i)) \<longrightarrow>
      consec_days (has_boost cbs u) today 100 = consec_days (has_boost cbs' u) today 100"
    by (auto intro: consec_days_cong)
  have cap: "(\<forall>i<100. has_boost cbs u (today - int i)) \<longrightarrow>
      consec_days (has_boost cbs u) today 100 = 100"
    by (auto intro: consec_days_run)
  show ?thesis using le dep cap by (simp add: calculate_burn_streak_consec)
qed



lemma has_boost_boost_run:
  "has_boost (boost_run u d n) u' d' = (u' = u \<and> d - int n < d' \<and> d' \<le> d)"
proof -
  have "(\<exists>i\<in>{0..<n}. d - int i = d') = (d - int n < d' \<and> d' \<le> d)"
  proof
    assume "\<exists>i\<in>{0..<n}. d - int i = d'"
    then show "d - int n < d' \<and> d' \<le> d" by auto
  next
    assume a: "d - int n < d' \<and> d' \<le> d"
    then have "nat (d - d') \<in> {0..<n}" "d - int (nat (d - d')) = d'" by auto
    then show "\<exists>i\<in>{0..<n}. d - int i = d'" by blast
  qed
  then show ?thesis
    by (auto simp: has_boost_def boost_run_def list_ex_iff)
qed

theorem calculate_burn_streak_capped_witness:
  "calculate_burn_streak (boost_run 7 20242 101) 20242 7 = 100 \<and>
   calculate_burn_streak (boost_run 7 20242 100) 20242 7 = 100 \<and>
   calculate_burn_streak (boost_run 7 20242 101) 20242 7 =
     calculate_burn_streak (boost_run 7 20242 100) 20242 7"
proof -
  have full: "\<forall>i<100. has_boost (boost_run 7 20242 101) 7 (20242 - int i)"
    by (simp add: has_boost_boost_run)
  have same: "\<forall>i<100. has_boost (boost_run 7 20242 101) 7 (20242 - int i) =
                       has_boost (boost_run 7 20242 100) 7 (20242 - int i)"
    by (simp add: has_boost_boost_run)
  show ?thesis
    using calculate_burn_streak_capped [of "boost_run 7 20242 101" 20242 7 "boost_run 7 20242 100"]
      full same
    by simp
qed

section \<open>Properties of the batch recalculation\<close>

lemma recalculate_burn_streak_result:
  "streak_result_success (fst (recalculate_burn_streak raises today u s)) = (\<not> raises u)"
  "streak_result_user (fst (recalculate_burn_streak raises today u s)) = u"
  by (simp_all add: recalculate_burn_streak_def Let_def)

lemma recalculate_burn_streak_boosts:
  "completed_boosts (snd (recalculate_burn_streak raises today u s)) = completed_boosts s"
  by (simp add: recalculate_burn_streak_def Let_def update_user_def)

lemma recalculate_burn_streak_users:
  "users (snd (recalculate_burn_streak raises today u s)) =
     map (recalc_rows raises (completed_boosts s) today [u]) (users s)"
proof (cases "raises u")
  case True
  have "map (recalc_rows raises (completed_boosts s) today [u]) (users s) = users s"
    by (rule map_idI) (use True in \<open>auto simp: recalc_rows_def\<close>)
  then show ?thesis using True by (simp add: recalculate_burn_streak_def)
next
  case False
  have "map (\<lambda>r. if u_id r = u then recalculated_row (completed_boosts s) today r else r) (users s) =
        map (recalc_rows raises (completed_boosts s) today [u]) (users s)"
    by (rule map_cong) (auto simp: recalc_rows_def False)
  then show ?thesis using False
    by (simp add: recalculate_burn_streak_def Let_def update_user_def recalculated_row_def
          cong: if_cong)
qed

lemmas recalculate_burn_streak_state = recalculate_burn_streak_boosts recalculate_burn_streak_users

lemma recalculated_row_idem:
  "recalculated_row cbs today (recalculated_row cbs today r) = recalculated_row cbs today r"
  by (simp add: recalculated_row_def coalesce0_def)

lemma recalculated_row_id: "u_id (recalculated_row cbs today r) = u_id r"
  by (simp add: recalculated_row_def)

lemma recalc_rows_Cons:
  "recalc_rows raises cbs today rest (recalc_rows raises cbs today [u] r) =
   recalc_rows raises cbs today (u # rest) r"
  by (auto simp: recalc_rows_def recalculated_row_idem recalculated_row_id)

lemma recalculate_all_loop_tally:
  "recalculate_all_loop raises today ids (sc, ec, rs) s = ((sc', ec', rs'), s') \<Longrightarrow>
   sc' = sc + int (length (filter (\<lambda>u. \<not> raises u) ids)) \<and>
   ec' = ec + int (length (filter raises ids)) \<and>
   map streak_result_user rs' = map streak_result_user rs @ ids \<and>
   map streak_result_success rs' = map streak_result_success rs @ map (\<lambda>u. \<not> raises u) ids \<and>
   completed_boosts s' = completed_boosts s \<and>
   users s' = map (recalc_rows raises (completed_boosts s) today ids) (users s)"
proof (induction ids arbitrary: sc ec rs s)
  case Nil
  then show ?case by (simp add: recalc_rows_def)
next
  case (Cons u rest)
  obtain r s1 where step: "recalculate_burn_streak raises today u s = (r, s1)"
    by (cases "recalculate_burn_streak raises today u s")
  have r: "streak_result_success r = (\<not> raises u)" "streak_result_user r = u"
    using recalculate_burn_streak_result [of raises today u s] step by simp_all
  have s1: "completed_boosts s1 = completed_boosts s"
    "users s1 = map (recalc_rows raises (completed_boosts s) today [u]) (users s)"
    using recalculate_burn_streak_state [of raises today u s] step by simp_all
  show ?case
  proof (cases "raises u")
    case True
    then have "recalculate_all_loop raises today rest (sc, ec + 1, rs @ [r]) s1 = ((sc', ec', rs'), s')"
      using Cons.prems step r by simp
    from Cons.IH [OF this] show ?thesis
      using True r s1 by (simp add: recalc_rows_Cons)
  next
    case False
    then have "recalculate_all_loop raises today rest (sc + 1, ec, rs @ [r]) s1 = ((sc', ec', rs'), s')"
      using Cons.prems step r by simp
    from Cons.IH [OF this] show ?thesis
      using False r s1 by (simp add: recalc_rows_Cons)
  qed
qed

text \<open>
  C9. \<open>recalculate_all_burn_streaks\<close> visits every row of \<open>users\<close> in turn and returns one
  result per user; a user whose recalculation raises gets an error result and keeps its row,
  and every other user's row is recalculated all the same; the summary counts the successes
  and the failures, and \<open>total_users\<close> is their sum, the number of users.
\<close>

theorem recalculate_all_burn_streaks_tally:
  "recalculate_all_burn_streaks raises today s = (summary, s') \<Longrightarrow>
   map streak_result_user (results summary) = map u_id (users s) \<and>
   map streak_result_success (results summary) = map (\<lambda>r. \<not> raises (u_id r)) (users s) \<and>
   success_count summary = int (length (filter (\<lambda>r. \<not> raises (u_id r)) (users s))) \<and>
   error_count summary = int (length (filter (\<lambda>r. raises (u_id r)) (users s))) \<and>
   total_users summary = success_count summary + error_count summary \<and>
   total_users summary = int (length (users s)) \<and>
   users s' = map (\<lambda>r. if raises (u_id r) then r
                        else recalculated_row (completed_boosts s) today r) (users s)"
proof -
  assume a: "recalculate_all_burn_streaks raises today s = (summary, s')"
  obtain sc ec rs s1 where loop:
    "recalculate_all_loop raises today (map u_id (users s)) (0, 0, []) s = ((sc, ec, rs), s1)"
    by (metis prod.collapse)
  have sm: "summary = \<lparr>total_users = sc + ec, success_count = sc, error_count = ec, results = rs\<rparr>"
    and s': "s' = s1"
    using a loop by (simp_all add: recalculate_all_burn_streaks_def)
  note t = recalculate_all_loop_tally [OF loop]
  have len: "length (filter (\<lambda>u. \<not> raises u) (map u_id (users s))) +
             length (filter raises (map u_id (users s))) = length (users s)"
    using sum_length_filter_compl [of "\<lambda>u. \<not> raises u" "map u_id (users s)"] by simp
  have rows: "map (recalc_rows raises (completed_boosts s) today (map u_id (users s))) (users s) =
     map (\<lambda>r. if raises (u_id r) then r else recalculated_row (completed_boosts s) today r) (users s)"
    by (rule map_cong) (auto simp: recalc_rows_def)
  show ?thesis
    using t len rows unfolding sm s' by (simp add: filter_map comp_def)
qed

theorem recalculate_all_burn_streaks_tally_witness:
  "total_users (fst (recalculate_all_burn_streaks (fails_for 2) (make_date 2025 6 3) three_users)) = 3 \<and>
   success_count (fst (recalculate_all_burn_streaks (fails_for 2) (make_date 2025 6 3) three_users)) = 2 \<and>
   error_count (fst (recalculate_all_burn_streaks (fails_for 2) (make_date 2025 6 3) three_users)) = 1 \<and>
   map streak_result_success
     (results (fst (recalculate_all_burn_streaks (fails_for 2) (make_date 2025 6 3) three_users))) =
     [True, False, True]"
proof -
  have run: "recalculate_all_burn_streaks (fails_for 2) (make_date 2025 6 3) three_users =
     (fst (recalculate_all_burn_streaks (fails_for 2) (make_date 2025 6 3) three_users),
      snd (recalculate_all_burn_streaks (fails_for 2) (make_date 2025 6 3) three_users))"
    by simp
  show ?thesis
    using recalculate_all_burn_streaks_tally [OF run]
    by (simp add: three_users_def empty_db_def new_user_def fails_for_def)
qed

section \<open>The current streak: today, yesterday, and runs of days\<close>

text \<open>Without a boost today the loop is left in its first iteration, whatever came before.\<close>

lemma calculate_burn_streak_no_boost_today:
  "\<not> has_boost cbs p_user_id today \<Longrightarrow> calculate_burn_streak cbs today p_user_id = 0"
  by (simp add: calculate_burn_streak_def)

text \<open>
  C1. The claim: the computed current streak is the number of consecutive days, ending today
  or yesterday, that each have a boost; a user whose last boost was yesterday keeps a positive
  streak. \<open>calculate_burn_streak\<close> starts at today and leaves the loop at once when today
  has no boost. For a user with boosts on 2025-06-01 and 2025-06-02, asked on 2025-06-03, it
  returns 0, where the specification's count is 2; the sibling \<open>fix_user_burn_streak\<close>,
  which accepts today or yesterday as the most recent day, returns 2 on the same dates.
\<close>

theorem calculate_burn_streak_ignores_yesterday:
  "calculate_burn_streak (completed_boosts yesterday_db) (make_date 2025 6 3) 7 = 0 \<and>
   spec_current_streak (boost_dates (completed_boosts yesterday_db) 7) (make_date 2025 6 3) = 2 \<and>
   fst (fix_user_burn_streak (make_date 2025 6 3) 7 yesterday_db) = (Some 0, 2)"
  by code_simp

lemma calculate_burn_streak_run:
  assumes run: "\<forall>i<n. has_boost cbs u (today - int i)"
      and stop: "\<not> has_boost cbs u (today - int n)"
  shows "calculate_burn_streak cbs today u = int (min n 100)"
proof -
  have "consec_days (has_boost cbs u) today 100 = min n 100"
  proof (rule consec_days_run)
    show "\<And>i. i < min n 100 \<Longrightarrow> has_boost cbs u (today - int i)" using run by simp
    show "min n 100 \<le> 100" by simp
    show "min n 100 < 100 \<Longrightarrow> \<not> has_boost cbs u (today - int (min n 100))"
      using stop by (simp add: min_def split: if_splits)
  qed
  then show ?thesis by (simp add: calculate_burn_streak_consec)
qed

text \<open>
  C2 (amended). When the user has a boost on each of the \<open>n\<close> days ending on the as-of date
  and none on the day before them, \<open>calculate_burn_streak\<close> returns \<open>n\<close> capped at 100, and
  \<open>recalculate_burn_streak\<close> stores that value as \<open>burn_streak\<close> and the larger of it and
  the previous longest streak as \<open>longest_burn_streak\<close>. For boosts on 2025-06-01, 2025-06-02
  and 2025-06-03, as of 2025-06-03, that is a current streak of 3 and, for a user whose
  longest streak was at most 3, a longest streak of 3.
\<close>

theorem unbroken_run_streak:
  assumes run: "\<forall>i<n. has_boost (completed_boosts s) u (today - int i)"
      and stop: "\<not> has_boost (completed_boosts s) u (today - int n)"
      and ok: "\<not> raises u"
  shows "calculate_burn_streak (completed_boosts s) today u = int (min n 100) \<and>
         users (snd (recalculate_burn_streak raises today u s)) =
           map (\<lambda>r. if u_id r = u
                     then r\<lparr>burn_streak := Some (int (min n 100)),
                            longest_burn_streak :=
                              Some (max (coalesce0 (longest_burn_streak r)) (int (min n 100)))\<rparr>
                     else r) (users s)"
proof -
  have c: "calculate_burn_streak (completed_boosts s) today u = int (min n 100)"
    using run stop by (rule calculate_burn_streak_run)
  show ?thesis
    using c ok by (simp add: recalculate_burn_streak_def Let_def update_user_def)
qed

theorem unbroken_run_streak_witness:
  "calculate_burn_streak (completed_boosts june_db) (make_date 2025 6 3) 7 = 3 \<and>
   map burn_streak (users (snd (recalculate_burn_streak (fails_for 0) (make_date 2025 6 3) 7 june_db))) = [Some 3] \<and>
   map longest_burn_streak (users (snd (recalculate_burn_streak (fails_for 0) (make_date 2025 6 3) 7 june_db))) = [Some 3]"
proof -
  have cb: "completed_boosts june_db = boost_run 7 (make_date 2025 6 3) 3"
    by (simp add: june_db_def empty_db_def)
  have run: "\<forall>i<3. has_boost (completed_boosts june_db) 7 (make_date 2025 6 3 - int i)"
    unfolding cb by (simp add: has_boost_boost_run)
  have stop: "\<not> has_boost (completed_boosts june_db) 7 (make_date 2025 6 3 - int 3)"
    unfolding cb by (simp add: has_boost_boost_run)
  have ok: "\<not> fails_for 0 7" by (simp add: fails_for_def)
  show ?thesis
    using unbroken_run_streak [where n = 3 and s = june_db and u = 7
        and today = "make_date 2025 6 3" and raises = "fails_for 0"] run stop ok
    by (simp add: june_db_def empty_db_def new_user_def coalesce0_def)
qed

text \<open>
  The claim as written promises \<open>n\<close> for every run of \<open>n\<close> days; a run of 101 days ending
  on the as-of date gives 100.
\<close>

theorem run_of_101_days_counterexample:
  "calculate_burn_streak (boost_run 7 (make_date 2025 6 3) 101) (make_date 2025 6 3) 7 \<noteq> 101"
proof -
  have "\<forall>i<100. has_boost (boost_run 7 (make_date 2025 6 3) 101) 7 (make_date 2025 6 3 - int i)"
    by (simp add: has_boost_boost_run)
  then have "calculate_burn_streak (boost_run 7 (make_date 2025 6 3) 101) (make_date 2025 6 3) 7 = 100"
    by (auto simp: calculate_burn_streak_consec intro: consec_days_run)
  then show ?thesis by simp
qed

text \<open>
  The discarded \<open>calculate_burn_streak_from_fp_earnings\<close> compares \<open>v_last_date\<close> with
  yesterday after its loop, when that variable holds the oldest day of the run and no longer
  the most recent one: on the three June days it returns 1.
\<close>

lemma calculate_burn_streak_from_fp_earnings_june:
  "fst (calculate_burn_streak_from_fp_earnings (make_date 2025 6 3) 7
     (empty_db\<lparr>fp_earnings := boost_earnings 7 (make_date 2025 6 3) 3\<rparr>)) = 1"
  by code_simp

section \<open>The invariant \<open>longest_streak \<ge> current_streak\<close>\<close>

text \<open>
  C3. The claim: every state the streak-updating operations reach satisfies
  \<open>longest_streak \<ge> current_streak\<close>. The trigger function \<open>update_burn_streak\<close> adds 1 to
  \<open>burn_streak\<close> and leaves \<open>longest_burn_streak\<close> as it is: a user at streak 3, longest 3
  (the state \<open>recalculate_burn_streak\<close> produced) is at streak 4, longest 3 after the first
  boost of the next day. \<open>fix_user_burn_streak\<close> writes \<open>burn_streak\<close> alone as well: a new
  user with two point-earning days ends at streak 2, longest 0.
\<close>

theorem increment_trigger_breaks_invariant:
  "list_all streak_inv (users day4_db) \<and>
   \<not> list_all streak_inv (users (update_burn_streak day4_boost day4_db)) \<and>
   map burn_streak (users (update_burn_streak day4_boost day4_db)) = [Some 4] \<and>
   map longest_burn_streak (users (update_burn_streak day4_boost day4_db)) = [Some 3] \<and>
   list_all streak_inv (users earner_db) \<and>
   \<not> list_all streak_inv (users (snd (fix_user_burn_streak (make_date 2025 6 3) 7 earner_db))) \<and>
   map burn_streak (users (snd (fix_user_burn_streak (make_date 2025 6 3) 7 earner_db))) = [Some 2] \<and>
   map longest_burn_streak (users (snd (fix_user_burn_streak (make_date 2025 6 3) 7 earner_db))) = [Some 0]"
  by code_simp

text \<open>
  The operations of the latest revision keep the invariant: the recalculation and the one-off
  fix of 2025-06-24 raise the longest streak with \<open>GREATEST\<close>, and the reset only lowers
  the current streak to 0.
\<close>

lemma recalculate_burn_streak_keeps_inv:
  "list_all streak_inv (users s) \<Longrightarrow>
   list_all streak_inv (users (snd (recalculate_burn_streak raises today u s)))"
  by (auto simp: recalculate_burn_streak_users list_all_iff recalc_rows_def recalculated_row_def
        streak_inv_def coalesce0_def)

lemma fix_user_burn_streak_20250624_keeps_inv:
  "list_all streak_inv (users s) \<Longrightarrow>
   list_all streak_inv (users (snd (fix_user_burn_streak_20250624 raises u s)))"
  by (auto simp: fix_user_burn_streak_20250624_def Let_def update_user_def list_all_iff
        streak_inv_def coalesce0_def)

lemma reset_loop_users:
  "users (reset_loop vs s) =
   map (\<lambda>r. if u_id r \<in> u_id ` set vs then r\<lparr>burn_streak := Some 0\<rparr> else r) (users s)"
proof (induction vs arbitrary: s)
  case Nil
  then show ?case by (simp add: map_idI)
next
  case (Cons v vs)
  show ?case
    by (simp add: Cons.IH update_user_def)
qed

lemma reset_missed_burn_streaks_keeps_inv:
  assumes "list_all streak_inv (users s)"
      and "list_all (\<lambda>r. 0 \<le> coalesce0 (longest_burn_streak r)) (users s)"
  shows "list_all streak_inv (users (snd (reset_missed_burn_streaks raises today s)))"
  using assms
  by (auto simp: reset_missed_burn_streaks_def reset_loop_users list_all_iff streak_inv_def
        coalesce0_def)

section \<open>Properties of \<open>handle_morning_basics_completion\<close>\<close>

lemma upsert_daily_fp_other:
  "completed_actions (upsert_daily_fp u d a n s) = completed_actions s"
  "fp_earnings (upsert_daily_fp u d a n s) = fp_earnings s"
  "users (upsert_daily_fp u d a n s) = users s"
  "challenges (upsert_daily_fp u d a n s) = challenges s"
  "completed_challenges (upsert_daily_fp u d a n s) = completed_challenges s"
  by (simp_all add: upsert_daily_fp_def split: option.splits)

lemma update_user_other:
  "completed_actions (update_user u f s) = completed_actions s"
  "fp_earnings (update_user u f s) = fp_earnings s"
  "daily_fp (update_user u f s) = daily_fp s"
  "challenges (update_user u f s) = challenges s"
  "completed_challenges (update_user u f s) = completed_challenges s"
  by (simp_all add: update_user_def)

lemma mb_award_step_writes:
  assumes "mb_award_step fails u today now name cnt compl sw s = Inr (r, s')"
  shows "\<not> fails CompletedActionInsert"
    and "completed_actions s' = completed_actions s @ [mb_action u today]"
    and "fp_earnings s' = fp_earnings s @ (if fails EarningInsert then [] else [mb_earning u name now])"
    and "daily_fp s' = (if fails DailyFpUpsert then daily_fp s
                        else daily_fp (upsert_daily_fp u today (ms_fp_earned r) name s))"
    and "users s' = (if fails UserUpdate then users s
                     else users (update_user u (\<lambda>x. x\<lparr>fuel_points := fuel_points x + ms_fp_earned r\<rparr>) s))"
    and "challenges s' = challenges s"
    and "completed_challenges s' = completed_challenges s"
    and "r = \<lparr>ms_fp_earned = fp_to_award + (if compl then bonus_fp else 0),
              ms_verification_count = cnt, ms_challenge_completed = compl,
              ms_swallowed = sw @ filter fails [EarningInsert, DailyFpUpsert, UserUpdate]\<rparr>"
proof -
  show nf: "\<not> fails CompletedActionInsert"
    using assms unfolding mb_award_step_def by (cases "fails CompletedActionInsert") simp_all
  have eq: "Inr (r, s') = mb_award_step fails u today now name cnt compl sw s"
    using assms by simp
  show "completed_actions s' = completed_actions s @ [mb_action u today]"
    using eq nf by (simp add: mb_award_step_def Let_def upsert_daily_fp_other update_user_other)
  show "fp_earnings s' = fp_earnings s @ (if fails EarningInsert then [] else [mb_earning u name now])"
    using eq nf by (simp add: mb_award_step_def Let_def upsert_daily_fp_other update_user_other)
  show "challenges s' = challenges s"
    using eq nf by (simp add: mb_award_step_def Let_def upsert_daily_fp_other update_user_other)
  show "completed_challenges s' = completed_challenges s"
    using eq nf by (simp add: mb_award_step_def Let_def upsert_daily_fp_other update_user_other)
  show "r = \<lparr>ms_fp_earned = fp_to_award + (if compl then bonus_fp else 0),
              ms_verification_count = cnt, ms_challenge_completed = compl,
              ms_swallowed = sw @ filter fails [EarningInsert, DailyFpUpsert, UserUpdate]\<rparr>"
    using eq nf by (simp add: mb_award_step_def Let_def)
  show "users s' = (if fails UserUpdate then users s
                     else users (update_user u (\<lambda>x. x\<lparr>fuel_points := fuel_points x + ms_fp_earned r\<rparr>) s))"
    using eq nf by (simp add: mb_award_step_def Let_def upsert_daily_fp_other update_user_def)
  show "daily_fp s' = (if fails DailyFpUpsert then daily_fp s
                        else daily_fp (upsert_daily_fp u today (ms_fp_earned r) name s))"
    using eq nf
    by (simp add: mb_award_step_def Let_def update_user_other)
       (simp add: upsert_daily_fp_def split: option.splits)
qed

lemma first_index_None: "first_index P xs = None \<Longrightarrow> \<not> list_ex P xs"
  by (induction xs) (auto split: if_splits)

lemma first_index_Some:
  "first_index P xs = Some i \<Longrightarrow> i < length xs \<and> P (xs ! i)"
  by (induction xs arbitrary: i) (auto split: if_splits)

lemma first_index_append:
  "first_index P xs = None \<Longrightarrow> P y \<Longrightarrow> first_index P (xs @ [y]) = Some (length xs)"
  by (induction xs) (auto split: if_splits)

lemma first_index_update:
  "first_index P xs = Some i \<Longrightarrow> P y \<Longrightarrow> first_index P (xs[i := y]) = Some i"
proof (induction xs arbitrary: i)
  case Nil
  then show ?case by simp
next
  case (Cons x xs)
  show ?case
  proof (cases "P x")
    case True
    then show ?thesis using Cons.prems by simp
  next
    case False
    then obtain j where j: "first_index P xs = Some j" "i = Suc j"
      using Cons.prems by auto
    then show ?thesis using False Cons.IH [OF j(1) Cons.prems(2)] by simp
  qed
qed








lemma handle_morning_basics_completion_success:
  assumes "handle_morning_basics_completion fails auth today now s = (Inr r, s')"
  obtains u cnt compl sw s1 where
    "auth = Some u"
    "\<not> list_ex (\<lambda>a. ca_user_id a = u \<and> ca_action_id a = ''morning_basics_daily'' \<and>
                    ca_completed_date a = today) (completed_actions s)"
    "mb_challenge_step fails u now (map_option u_name (select_user s u))
       (list_ex (\<lambda>c. cc_user_id c = u \<and> cc_challenge_id c = ''mb0'') (completed_challenges s)) s =
     Inr (cnt, compl, sw, s1)"
    "mb_award_step fails u today now (map_option u_name (select_user s u)) cnt compl sw s1 = Inr (r, s')"
  using assms
  by (auto simp: handle_morning_basics_completion_def Let_def
        split: option.splits if_splits sum.splits prod.splits)

lemma morning_basics_duplicate_rejected:
  assumes "handle_morning_basics_completion fails (Some u) today now s = (Inr r, s1)"
  shows "handle_morning_basics_completion fails' (Some u) today now' s1 =
           (Inl AlreadyCompletedToday, s1)"
proof -
  from assms obtain cnt compl sw s0 where
    award: "mb_award_step fails u today now (map_option u_name (select_user s u)) cnt compl sw s0 =
              Inr (r, s1)"
    by (rule handle_morning_basics_completion_success) simp
  have "completed_actions s1 = completed_actions s0 @ [mb_action u today]"
    using award by (rule mb_award_step_writes)
  then have "list_ex (\<lambda>a. ca_user_id a = u \<and> ca_action_id a = ''morning_basics_daily'' \<and>
                          ca_completed_date a = today) (completed_actions s1)"
    by (simp add: mb_action_def)
  then show ?thesis by (simp add: handle_morning_basics_completion_def)
qed








section \<open>Properties of \<open>complete_custom_challenge_daily\<close>\<close>

lemma find_map_preserved:
  "(\<And>x. P (f x) = P x) \<Longrightarrow> find P (map f xs) = map_option f (find P xs)"
  by (induction xs) simp_all

lemma cc_actions_loop_tables:
  "cc_actions_loop c d elems n s = Some (n', s') \<Longrightarrow>
   s' = s\<lparr>custom_challenge_action_completions := custom_challenge_action_completions s'\<rparr>"
proof (induction c d elems n s rule: cc_actions_loop.induct)
  case (1 c d n s)
  then show ?case by simp
next
  case (2 c d rest n s)
  then show ?case by simp
next
  case (3 c d rest n s)
  then show ?case by simp
next
  case (4 c d a rest n s)
  show ?case
  proof (cases "list_ex (\<lambda>x. cua_id x = a \<and> cua_custom_challenge_id x = c) (custom_challenge_actions s)")
    case True
    from "4.IH"(1) [OF True] "4.prems" True
    have "s' = s\<lparr>custom_challenge_action_completions := custom_challenge_action_completions s @
                 [\<lparr>cac_daily_completion_id = d, cac_action_id = a, cac_completed = True\<rparr>]\<rparr>
              \<lparr>custom_challenge_action_completions := custom_challenge_action_completions s'\<rparr>"
      by simp
    then show ?thesis by simp
  next
    case False
    from "4.IH"(2) [OF False] "4.prems" False show ?thesis by simp
  qed
qed


lemma cc_daily_fp_other:
  "custom_challenges (cc_daily_fp u d a n s) = custom_challenges s"
  "custom_challenge_daily_completions (cc_daily_fp u d a n s) = custom_challenge_daily_completions s"
  by (simp_all add: cc_daily_fp_def split: option.splits)

lemma cc_count_completion_fields:
  "cuc_id (cc_count_completion d x) = cuc_id x"
  "cuc_user_id (cc_count_completion d x) = cuc_user_id x"
  "cuc_status (cc_count_completion d x) = cuc_status x"
  by (simp_all add: cc_count_completion_def)

lemma cc_reward_tables:
  assumes "cc_reward u c v name today now s = Some (fp, compl, tot, prog, s')"
  shows "custom_challenge_daily_completions s' = custom_challenge_daily_completions s"
    and "custom_challenges s' =
           map (\<lambda>x. if cuc_id x = c then cc_row_after compl today now x else x) (custom_challenges s)"
  using assms
  by (auto simp: cc_reward_def Let_def update_custom_challenge_def update_user_def cc_daily_fp_other
        cc_row_after_def cc_count_completion_fields split: if_splits prod.splits)


lemma cc_actions_loop_fields:
  assumes "cc_actions_loop c d elems n s = Some (n', s')"
  shows "custom_challenges s' = custom_challenges s"
    and "custom_challenge_daily_completions s' = custom_challenge_daily_completions s"
    and "fp_earnings s' = fp_earnings s"
    and "daily_fp s' = daily_fp s"
    and "users s' = users s"
proof -
  note t = cc_actions_loop_tables [OF assms]
  show "custom_challenges s' = custom_challenges s" by (subst t) simp
  show "custom_challenge_daily_completions s' = custom_challenge_daily_completions s"
    by (subst t) simp
  show "fp_earnings s' = fp_earnings s" by (subst t) simp
  show "daily_fp s' = daily_fp s" by (subst t) simp
  show "users s' = users s" by (subst t) simp
qed

lemma cc_body_cases:
  assumes "cc_body u c v acts name today now s = Some (r, s')"
  obtains
    (unmet) "\<not> cs_minimum_met r" "\<not> cs_is_completed r" "cs_fp_earned r = 0"
      "custom_challenges s' = custom_challenges s" "fp_earnings s' = fp_earnings s"
      "daily_fp s' = daily_fp s" "users s' = users s"
      "list_ex (\<lambda>d. cdc_custom_challenge_id d = c \<and> cdc_completion_date d = today)
         (custom_challenge_daily_completions s')"
  | (met) s3 fp compl tot prog where "cs_minimum_met r" "cs_is_completed r = compl"
      "cc_reward u c v name today now s3 = Some (fp, compl, tot, prog, s')"
      "custom_challenges s3 = custom_challenges s"
      "list_ex (\<lambda>d. cdc_custom_challenge_id d = c \<and> cdc_completion_date d = today)
         (custom_challenge_daily_completions s3)"
proof -
  obtain elems where acts: "acts = ActionArray elems"
    using assms by (cases acts) (simp_all add: cc_body_def)
  define row0 where "row0 = \<lparr>cdc_custom_challenge_id = c, cdc_user_id = u,
                   cdc_completion_date = today, cdc_actions_completed = 0,
                   cdc_minimum_met = False\<rparr>"
  define s1 where "s1 = s\<lparr>custom_challenge_daily_completions :=
                          custom_challenge_daily_completions s @ [row0]\<rparr>"
  obtain n s2 where loop:
    "cc_actions_loop c (length (custom_challenge_daily_completions s)) elems 0 s1 = Some (n, s2)"
    using assms acts unfolding cc_body_def Let_def s1_def row0_def
    by (cases "cc_actions_loop c (length (custom_challenge_daily_completions s)) elems 0
                 (s\<lparr>custom_challenge_daily_completions := custom_challenge_daily_completions s @
                    [\<lparr>cdc_custom_challenge_id = c, cdc_user_id = u, cdc_completion_date = today,
                      cdc_actions_completed = 0, cdc_minimum_met = False\<rparr>]\<rparr>)") auto
  note f = cc_actions_loop_fields [OF loop]
  define row1 where "row1 = row0\<lparr>cdc_actions_completed := n,
                                  cdc_minimum_met := (n \<ge> cuc_daily_minimum v)\<rparr>"
  define s3 where "s3 = s2\<lparr>custom_challenge_daily_completions :=
                          custom_challenge_daily_completions s @ [row1]\<rparr>"
  have s3: "s2\<lparr>custom_challenge_daily_completions :=
              (custom_challenge_daily_completions s2)[length (custom_challenge_daily_completions s) :=
                (custom_challenge_daily_completions s2 ! length (custom_challenge_daily_completions s))
                  \<lparr>cdc_actions_completed := n, cdc_minimum_met := (n \<ge> cuc_daily_minimum v)\<rparr>]\<rparr> = s3"
    unfolding s3_def row1_def f(2) s1_def by simp
  have row1: "cdc_custom_challenge_id row1 = c \<and> cdc_completion_date row1 = today"
    by (simp add: row1_def row0_def)
  have s3c: "custom_challenges s3 = custom_challenges s"
    "fp_earnings s3 = fp_earnings s" "daily_fp s3 = daily_fp s" "users s3 = users s"
    "custom_challenge_daily_completions s3 = custom_challenge_daily_completions s @ [row1]"
    unfolding s3_def using f s1_def by simp_all
  have ex: "list_ex (\<lambda>d. cdc_custom_challenge_id d = c \<and> cdc_completion_date d = today)
              (custom_challenge_daily_completions s3)"
    using s3c(5) row1 by simp
  show ?thesis
  proof (cases "n \<ge> cuc_daily_minimum v")
    case False
    have "s' = s3 \<and> \<not> cs_minimum_met r \<and> \<not> cs_is_completed r \<and> cs_fp_earned r = 0"
      using assms acts loop s3 False unfolding cc_body_def Let_def s1_def row0_def by auto
    then show ?thesis using s3c ex unmet by simp
  next
    case True
    have "\<exists>fp compl tot prog. cc_reward u c v name today now s3 = Some (fp, compl, tot, prog, s') \<and>
            cs_minimum_met r \<and> cs_is_completed r = compl"
      using assms acts loop s3 True unfolding cc_body_def Let_def s1_def row0_def
      by (auto split: option.splits)
    then show ?thesis using s3c(1) ex met by blast
  qed
qed

lemma cc_body_tables:
  assumes "cc_body u c v acts name today now s = Some (r, s')"
  shows "list_ex (\<lambda>d. cdc_custom_challenge_id d = c \<and> cdc_completion_date d = today)
           (custom_challenge_daily_completions s')"
    and "custom_challenges s' =
           (if cs_minimum_met r
            then map (\<lambda>x. if cuc_id x = c then cc_row_after (cs_is_completed r) today now x else x)
                   (custom_challenges s)
            else custom_challenges s)"
    and "cs_is_completed r \<longrightarrow> cs_minimum_met r"
proof -
  show "list_ex (\<lambda>d. cdc_custom_challenge_id d = c \<and> cdc_completion_date d = today)
           (custom_challenge_daily_completions s')"
    using assms
  proof (cases rule: cc_body_cases)
    case unmet
    then show ?thesis by simp
  next
    case (met s3 fp compl tot prog)
    show ?thesis using cc_reward_tables(1) [OF met(3)] met(5) by simp
  qed
  show "custom_challenges s' =
           (if cs_minimum_met r
            then map (\<lambda>x. if cuc_id x = c then cc_row_after (cs_is_completed r) today now x else x)
                   (custom_challenges s)
            else custom_challenges s)"
    using assms
  proof (cases rule: cc_body_cases)
    case unmet
    then show ?thesis by simp
  next
    case (met s3 fp compl tot prog)
    show ?thesis using cc_reward_tables(2) [OF met(3)] met(1,2,4) by simp
  qed
  show "cs_is_completed r \<longrightarrow> cs_minimum_met r"
    using assms by (cases rule: cc_body_cases) simp_all
qed

lemma cc_row_after_fields:
  "cuc_id (cc_row_after compl d now x) = cuc_id x"
  "cuc_user_id (cc_row_after compl d now x) = cuc_user_id x"
  "cuc_status (cc_row_after compl d now x) = (if compl then ''completed'' else cuc_status x)"
  by (simp_all add: cc_row_after_def cc_count_completion_fields)



lemma complete_custom_challenge_daily_success:
  assumes "complete_custom_challenge_daily raises u c acts today now s = (Inr r, s')"
  obtains v where
    "acts \<noteq> InvalidJson"
    "find (\<lambda>x. cuc_id x = c \<and> cuc_user_id x = u) (custom_challenges s) = Some v"
    "cuc_status v = ''active''"
    "cc_body u c v acts (map_option u_name (select_user s u)) today now s = Some (r, s')"
  using assms
  by (auto simp: complete_custom_challenge_daily_def Let_def
        split: if_splits option.splits prod.splits)

text \<open>
  A submission below the daily minimum is no error: the daily completion record stays, and
  neither the ledger nor the totals nor the challenge's progress change.
\<close>

lemma custom_below_minimum_writes:
  assumes "complete_custom_challenge_daily raises u c acts today now s = (Inr r, s')"
      and "\<not> cs_minimum_met r"
  shows "cs_fp_earned r = 0 \<and> fp_earnings s' = fp_earnings s \<and> daily_fp s' = daily_fp s \<and>
         users s' = users s \<and> custom_challenges s' = custom_challenges s \<and>
         list_ex (\<lambda>d. cdc_custom_challenge_id d = c \<and> cdc_completion_date d = today)
           (custom_challenge_daily_completions s')"
proof -
  from assms(1) obtain v where
    body: "cc_body u c v acts (map_option u_name (select_user s u)) today now s = Some (r, s')"
    by (rule complete_custom_challenge_daily_success)
  show ?thesis
    using body by (cases rule: cc_body_cases) (use assms(2) in simp_all)
qed

lemma custom_duplicate_rejected:
  assumes "complete_custom_challenge_daily raises u c acts today now s = (Inr r, s1)"
  shows "complete_custom_challenge_daily raises' u c acts today now' s1 =
           (Inl (if cs_is_completed r then ChallengeNotActive else ChallengeAlreadyCompletedToday), s1)"
proof -
  from assms obtain v where
    acts: "acts \<noteq> InvalidJson" and
    v: "find (\<lambda>x. cuc_id x = c \<and> cuc_user_id x = u) (custom_challenges s) = Some v" and
    active: "cuc_status v = ''active''" and
    body: "cc_body u c v acts (map_option u_name (select_user s u)) today now s = Some (r, s1)"
    by (rule complete_custom_challenge_daily_success)
  note t = cc_body_tables [OF body]
  have idv: "cuc_id v = c" using v by (auto dest: find_Some_iff [THEN iffD1])
  define g where "g = (\<lambda>x. if cuc_id x = c then cc_row_after (cs_is_completed r) today now x else x)"
  have keep: "\<And>x. (cuc_id (g x) = c \<and> cuc_user_id (g x) = u) = (cuc_id x = c \<and> cuc_user_id x = u)"
    by (simp add: g_def cc_row_after_fields)
  have found: "find (\<lambda>x. cuc_id x = c \<and> cuc_user_id x = u) (custom_challenges s1) =
                 Some (if cs_minimum_met r then g v else v)"
  proof (cases "cs_minimum_met r")
    case True
    then have "custom_challenges s1 = map g (custom_challenges s)" using t(2) by (simp add: g_def)
    then show ?thesis using find_map_preserved [of "\<lambda>x. cuc_id x = c \<and> cuc_user_id x = u" g, OF keep] v True
      by simp
  next
    case False
    then show ?thesis using t(2) v by simp
  qed
  have status: "cuc_status (if cs_minimum_met r then g v else v) =
                  (if cs_is_completed r then ''completed'' else ''active'')"
    using t(3) active idv by (simp add: g_def cc_row_after_fields)
  show ?thesis
    using acts found status t(1)
    by (simp add: complete_custom_challenge_daily_def)
qed

section \<open>The completion bonus\<close>

text \<open>
  C4. The claim: the bonus is awarded once, and a daily completion after the challenge is
  completed adds no bonus to \<open>fp_earnings\<close>, \<open>daily_fp\<close> or \<open>users.fuel_points\<close>. After 21
  daily completions the user has 155 points, the ledger sums to 155 with one bonus entry, and
  the daily rows sum to 155. The completion of day 22 finds \<open>verification_count + 1 \<ge> 21\<close>
  again and sets \<open>challenge_completed\<close>: the guard on \<open>completed_challenges\<close> keeps a second
  bonus entry out of the ledger, but the call returns 55 points earned and adds 55 to the
  daily row and to \<open>fuel_points\<close>, which end at 210 against a ledger of 160.
\<close>

theorem completed_challenge_pays_bonus_again:
  "mb_summary day_21_db 7 = ([155], 155, 1, 155) \<and>
   fst (handle_morning_basics_completion no_faults (Some 7) (make_date 2025 6 22)
          (noon (make_date 2025 6 22)) day_21_db) =
     Inr \<lparr>ms_fp_earned = 55, ms_verification_count = 22, ms_challenge_completed = True,
          ms_swallowed = []\<rparr> \<and>
   mb_summary (snd (handle_morning_basics_completion no_faults (Some 7) (make_date 2025 6 22)
          (noon (make_date 2025 6 22)) day_21_db)) 7 = ([210], 160, 1, 210)"
  by code_simp

section \<open>A second submission on the same day\<close>

text \<open>
  C5. When a daily completion has succeeded, the same call for the same user (and custom
  challenge) on the same day is rejected and changes nothing, whatever the time of the call
  and the faults of the storage engine: \<open>handle_morning_basics_completion\<close> returns
  ``Already completed today''; \<open>complete_custom_challenge_daily\<close> returns ``Challenge already
  completed today'', or ``Challenge is not active'' when the first call completed the
  challenge. So of the two calls exactly the first succeeds, and there is no second
  completion record, ledger entry or point increment.
\<close>

theorem duplicate_daily_completion_rejected:
  "(handle_morning_basics_completion fails (Some u) today now s = (Inr r, s_next) \<longrightarrow>
      handle_morning_basics_completion fails' (Some u) today now' s_next =
        (Inl AlreadyCompletedToday, s_next)) \<and>
   (complete_custom_challenge_daily raises u c acts today now t = (Inr r', t_next) \<longrightarrow>
      complete_custom_challenge_daily raises' u c acts today now' t_next =
        (Inl (if cs_is_completed r' then ChallengeNotActive else ChallengeAlreadyCompletedToday), t_next))"
proof (intro conjI impI)
  assume "handle_morning_basics_completion fails (Some u) today now s = (Inr r, s_next)"
  then show "handle_morning_basics_completion fails' (Some u) today now' s_next =
               (Inl AlreadyCompletedToday, s_next)"
    by (rule morning_basics_duplicate_rejected)
next
  assume "complete_custom_challenge_daily raises u c acts today now t = (Inr r', t_next)"
  then show "complete_custom_challenge_daily raises' u c acts today now' t_next =
        (Inl (if cs_is_completed r' then ChallengeNotActive else ChallengeAlreadyCompletedToday), t_next)"
    by (rule custom_duplicate_rejected)
qed

theorem duplicate_daily_completion_rejected_witness:
  "handle_morning_basics_completion no_faults (Some 7) (make_date 2025 6 1)
     (noon (make_date 2025 6 1) + 60000000) (snd mb_first_call) =
     (Inl AlreadyCompletedToday, snd mb_first_call) \<and>
   complete_custom_challenge_daily False 7 40 (ActionArray [ActionId 50]) (make_date 2025 6 1)
     (noon (make_date 2025 6 1) + 60000000) (snd cc_first_call) =
     (Inl ChallengeAlreadyCompletedToday, snd cc_first_call)"
proof -
  have mb: "fst mb_first_call = Inr \<lparr>ms_fp_earned = 5, ms_verification_count = 1,
              ms_challenge_completed = False, ms_swallowed = []\<rparr>"
    by code_simp
  have cc: "fst cc_first_call = Inr \<lparr>cs_daily_completion_id = 0, cs_minimum_met = True,
              cs_actions_completed = 1, cs_fp_earned = 10, cs_is_completed = False,
              cs_total_completions = 1, cs_progress = 100 / 21\<rparr>"
    by code_simp
  have mb': "handle_morning_basics_completion no_faults (Some 7) (make_date 2025 6 1)
     (noon (make_date 2025 6 1)) mb_start = (Inr \<lparr>ms_fp_earned = 5, ms_verification_count = 1,
              ms_challenge_completed = False, ms_swallowed = []\<rparr>, snd mb_first_call)"
    using mb unfolding mb_first_call_def by (simp add: prod_eq_iff)
  have cc': "complete_custom_challenge_daily False 7 40 (ActionArray [ActionId 50])
     (make_date 2025 6 1) (noon (make_date 2025 6 1)) cc_start =
       (Inr \<lparr>cs_daily_completion_id = 0, cs_minimum_met = True,
              cs_actions_completed = 1, cs_fp_earned = 10, cs_is_completed = False,
              cs_total_completions = 1, cs_progress = 100 / 21\<rparr>, snd cc_first_call)"
    using cc unfolding cc_first_call_def by (simp add: prod_eq_iff)
  show ?thesis
    using duplicate_daily_completion_rejected [where fails = no_faults and fails' = no_faults
        and u = 7 and today = "make_date 2025 6 1" and now = "noon (make_date 2025 6 1)"
        and now' = "noon (make_date 2025 6 1) + 60000000" and s = mb_start
        and s_next = "snd mb_first_call" and raises = False and raises' = False and c = 40
        and acts = "ActionArray [ActionId 50]" and t = cc_start and t_next = "snd cc_first_call"
        and r = "\<lparr>ms_fp_earned = 5, ms_verification_count = 1,
              ms_challenge_completed = False, ms_swallowed = []\<rparr>"
        and r' = "\<lparr>cs_daily_completion_id = 0, cs_minimum_met = True,
              cs_actions_completed = 1, cs_fp_earned = 10, cs_is_completed = False,
              cs_total_completions = 1, cs_progress = 100 / 21\<rparr>"] mb' cc'
    by simp
qed

section \<open>Failures and partial state\<close>




text \<open>
  Evaluated: when only the update of \<open>users\<close> raises, the call reports success with the error
  noted, the completion record, the ledger entry, the daily total and the challenge progress
  are written, and \<open>fuel_points\<close> stays 0.
\<close>

lemma swallowed_user_update_failure:
  "fst (mb_call_failing UserUpdate) =
     Inr \<lparr>ms_fp_earned = 5, ms_verification_count = 1, ms_challenge_completed = False,
          ms_swallowed = [UserUpdate]\<rparr> \<and>
   completed_actions (snd (mb_call_failing UserUpdate)) = [mb_action 7 (make_date 2025 6 1)] \<and>
   map fe_fp_amount (fp_earnings (snd (mb_call_failing UserUpdate))) = [5] \<and>
   map df_fp_earned (daily_fp (snd (mb_call_failing UserUpdate))) = [5] \<and>
   map fuel_points (users (snd (mb_call_failing UserUpdate))) = [0] \<and>
   map ch_verification_count (challenges (snd (mb_call_failing UserUpdate))) = [1]"
  by code_simp

section \<open>Properties of the daily snapshot\<close>

lemma compute_insights_sources:
  "compute_insights d (s\<lparr>all_user_insights := t\<rparr>) = compute_insights d s"
  unfolding compute_insights_def Let_def by simp

lemma compute_insights_date: "compute_insights d s = Inr row \<Longrightarrow> ai_date row = d"
  by (auto simp: compute_insights_def Let_def split: if_splits)

lemma upsert_insight_idem:
  "upsert_insight row (upsert_insight row t) = upsert_insight row t"
proof (cases "first_index (\<lambda>r. ai_date r = ai_date row) t")
  case None
  have "first_index (\<lambda>r. ai_date r = ai_date row) (t @ [row]) = Some (length t)"
    using None by (rule first_index_append) simp
  then show ?thesis using None by (simp add: upsert_insight_def)
next
  case (Some i)
  have "first_index (\<lambda>r. ai_date r = ai_date row) (t[i := row]) = Some i"
    using Some by (rule first_index_update) simp
  then show ?thesis using Some by (simp add: upsert_insight_def)
qed

lemma filter_update_same:
  "i < length t \<Longrightarrow> P (t ! i) \<Longrightarrow> P y \<Longrightarrow> length (filter P (t[i := y])) = length (filter P t)"
proof (induction t arbitrary: i)
  case Nil
  then show ?case by simp
next
  case (Cons x t)
  then show ?case by (cases i) auto
qed

lemma upsert_insight_count:
  "length (filter (\<lambda>r. ai_date r = ai_date row) (upsert_insight row t)) =
   max 1 (length (filter (\<lambda>r. ai_date r = ai_date row) t))"
proof (cases "first_index (\<lambda>r. ai_date r = ai_date row) t")
  case None
  then have "filter (\<lambda>r. ai_date r = ai_date row) t = []"
    using first_index_None [OF None] by (simp add: list_ex_iff filter_empty_conv)
  then show ?thesis using None by (simp add: upsert_insight_def)
next
  case (Some i)
  note fi = first_index_Some [OF Some]
  have "length (filter (\<lambda>r. ai_date r = ai_date row) (t[i := row])) =
        length (filter (\<lambda>r. ai_date r = ai_date row) t)"
    using fi by (intro filter_update_same) simp_all
  moreover have "length (filter (\<lambda>r. ai_date r = ai_date row) t) \<ge> 1"
  proof -
    have "t ! i \<in> set (filter (\<lambda>r. ai_date r = ai_date row) t)" using fi by simp
    then have "filter (\<lambda>r. ai_date r = ai_date row) t \<noteq> []" by (metis empty_iff empty_set)
    then show ?thesis by (cases "filter (\<lambda>r. ai_date r = ai_date row) t") simp_all
  qed
  ultimately show ?thesis using Some by (simp add: upsert_insight_def)
qed

lemma upsert_insight_dates:
  "set (map ai_date (upsert_insight row t)) = insert (ai_date row) (set (map ai_date t))"
proof (cases "first_index (\<lambda>r. ai_date r = ai_date row) t")
  case None
  then show ?thesis by (simp add: upsert_insight_def)
next
  case (Some i)
  note fi = first_index_Some [OF Some]
  have "map ai_date (t[i := row]) = map ai_date t"
    using fi by (simp add: map_update list_update_same_conv)
  moreover have "ai_date row \<in> set (map ai_date t)" using fi by (metis (mono_tags) nth_mem image_eqI list.set_map)
  ultimately show ?thesis using Some by (auto simp: upsert_insight_def)
qed

lemma upsert_insight_distinct:
  "distinct (map ai_date t) \<Longrightarrow> distinct (map ai_date (upsert_insight row t))"
proof (cases "first_index (\<lambda>r. ai_date r = ai_date row) t")
  case None
  assume "distinct (map ai_date t)"
  moreover have "ai_date row \<notin> ai_date ` set t"
    using first_index_None [OF None] by (auto simp: list_ex_iff)
  ultimately show ?thesis using None by (simp add: upsert_insight_def)
next
  case (Some i)
  assume d: "distinct (map ai_date t)"
  note fi = first_index_Some [OF Some]
  have "map ai_date (t[i := row]) = map ai_date t"
    using fi by (simp add: map_update list_update_same_conv)
  then show ?thesis using Some d by (simp add: upsert_insight_def)
qed

text \<open>
  C6. When the snapshot of a date has been computed, computing it again with no write in
  between succeeds and leaves the database, and so the snapshot, exactly as it is. The table
  then has as many rows for the date as before, and one if it had none: the second run
  overwrites. If no two rows of the table had the same date, no two have afterwards.
\<close>

theorem daily_snapshot_idempotent:
  assumes "calculate_daily_user_insights d s = Inr s_next"
  shows "calculate_daily_user_insights d s_next = Inr s_next \<and>
         length (filter (\<lambda>r. ai_date r = d) (all_user_insights s_next)) =
           max 1 (length (filter (\<lambda>r. ai_date r = d) (all_user_insights s))) \<and>
         (distinct (map ai_date (all_user_insights s)) \<longrightarrow>
            distinct (map ai_date (all_user_insights s_next)))"
proof -
  from assms obtain row where row: "compute_insights d s = Inr row"
    and nxt: "s_next = s\<lparr>all_user_insights := upsert_insight row (all_user_insights s)\<rparr>"
    by (auto simp: calculate_daily_user_insights_def split: sum.splits)
  have date: "ai_date row = d" using row by (rule compute_insights_date)
  have again: "compute_insights d s_next = Inr row"
    unfolding nxt by (simp add: compute_insights_sources row)
  have "calculate_daily_user_insights d s_next = Inr s_next"
    unfolding calculate_daily_user_insights_def again
    by (simp add: nxt upsert_insight_idem)
  moreover have "length (filter (\<lambda>r. ai_date r = d) (all_user_insights s_next)) =
           max 1 (length (filter (\<lambda>r. ai_date r = d) (all_user_insights s)))"
    using upsert_insight_count [of row "all_user_insights s"] by (simp add: nxt date)
  moreover have "distinct (map ai_date (all_user_insights s)) \<longrightarrow>
            distinct (map ai_date (all_user_insights s_next))"
    by (simp add: nxt upsert_insight_distinct)
  ultimately show ?thesis by blast
qed

theorem daily_snapshot_idempotent_witness:
  "calculate_daily_user_insights (make_date 2025 6 7) snapshot_once = Inr snapshot_once \<and>
   length (filter (\<lambda>r. ai_date r = make_date 2025 6 7) (all_user_insights snapshot_once)) = 1"
proof -
  have ok: "case calculate_daily_user_insights (make_date 2025 6 7) insights_db of
              Inl e \<Rightarrow> False | Inr s \<Rightarrow> True"
    by code_simp
  then have run: "calculate_daily_user_insights (make_date 2025 6 7) insights_db = Inr snapshot_once"
    unfolding snapshot_once_def
    by (cases "calculate_daily_user_insights (make_date 2025 6 7) insights_db") simp_all
  have none: "all_user_insights insights_db = []"
    by (simp add: insights_db_def empty_db_def)
  show ?thesis
    using daily_snapshot_idempotent [OF run] by (simp add: none)
qed

lemma distinct_on_user_head: "distinct_on_user (r # rs) \<noteq> [] \<and> hd (distinct_on_user (r # rs)) = r"
  by (induction "r # rs" arbitrary: rs rule: distinct_on_user.induct) auto

lemma distinct_on_user_subset: "set (distinct_on_user rs) \<subseteq> set rs"
  by (induction rs rule: distinct_on_user.induct) auto

lemma sorted_key_users:
  "sorted (map assessment_key rs) \<Longrightarrow> sorted (map ha_user_id rs)"
  by (induction rs) (auto simp: assessment_key_def less_eq_prod_def)

lemma distinct_on_user_distinct:
  "sorted (map ha_user_id rs) \<Longrightarrow> distinct (map ha_user_id (distinct_on_user rs))"
proof (induction rs rule: distinct_on_user.induct)
  case 1
  then show ?case by simp
next
  case (2 r)
  then show ?case by simp
next
  case (3 r r' rs)
  show ?case
  proof (cases "ha_user_id r = ha_user_id r'")
    case True
    have "sorted (map ha_user_id (r # rs))" using "3.prems" by auto
    then show ?thesis using True "3.IH"(1) by simp
  next
    case False
    have tail: "sorted (map ha_user_id (r' # rs))" using "3.prems" by simp
    have "\<forall>x \<in> set (r' # rs). ha_user_id r < ha_user_id x"
      using "3.prems" False by fastforce
    then have "ha_user_id r \<notin> ha_user_id ` set (distinct_on_user (r' # rs))"
      using distinct_on_user_subset [of "r' # rs"] by fastforce
    then show ?thesis using False "3.IH"(2) [OF False tail] by simp
  qed
qed

lemma distinct_on_user_first:
  "sorted (map assessment_key rs) \<Longrightarrow> x \<in> set rs \<Longrightarrow>
   \<exists>l \<in> set (distinct_on_user rs). ha_user_id l = ha_user_id x \<and> ha_created_at x \<le> ha_created_at l"
proof (induction rs rule: distinct_on_user.induct)
  case 1
  then show ?case by simp
next
  case (2 r)
  then show ?case by simp
next
  case (3 r r' rs)
  have head: "r \<in> set (distinct_on_user (r # rs))"
    using distinct_on_user_head [of r rs] by (metis list.set_sel(1))
  show ?case
  proof (cases "ha_user_id r = ha_user_id r'")
    case True
    have srt: "sorted (map assessment_key (r # rs))" using "3.prems"(1) by auto
    show ?thesis
    proof (cases "x = r'")
      case xr: True
      have "assessment_key r \<le> assessment_key r'" using "3.prems"(1) by simp
      then have "ha_created_at r' \<le> ha_created_at r"
        using True by (auto simp: assessment_key_def less_eq_prod_def)
      then show ?thesis using True xr head by auto
    next
      case False
      then have "x \<in> set (r # rs)" using "3.prems"(2) by auto
      from "3.IH"(1) [OF True srt this] show ?thesis using True by simp
    qed
  next
    case False
    have srt: "sorted (map assessment_key (r' # rs))" using "3.prems"(1) by simp
    show ?thesis
    proof (cases "x = r")
      case True
      then show ?thesis using False by auto
    next
      case xr: False
      then have "x \<in> set (r' # rs)" using "3.prems"(2) by auto
      from "3.IH"(2) [OF False srt this] show ?thesis using False by auto
    qed
  qed
qed

text \<open>
  C7. The assessments that enter the category averages of a snapshot: no two are of the same
  user; each is a row of \<open>health_assessments\<close> created on or before the snapshot date; and
  for every such row of the table the selected row of its user is at least as late. So
  every user with an assessment up to the date contributes exactly one, a latest one. The
  averages the snapshot stores are those of the selected rows. (Of two rows of a user with
  the very same timestamp the sort keeps the one stored first.)
\<close>

theorem latest_assessment_per_user:
  "distinct (map ha_user_id (latest_assessments (health_assessments s) d)) \<and>
   (\<forall>l \<in> set (latest_assessments (health_assessments s) d).
      l \<in> set (health_assessments s) \<and> DATE (ha_created_at l) \<le> d) \<and>
   (\<forall>r \<in> set (health_assessments s). DATE (ha_created_at r) \<le> d \<longrightarrow>
      (\<exists>l \<in> set (latest_assessments (health_assessments s) d).
         ha_user_id l = ha_user_id r \<and> ha_created_at r \<le> ha_created_at l)) \<and>
   (\<forall>row. compute_insights d s = Inr row \<longrightarrow>
      ai_category_averages row = averages_of (latest_assessments (health_assessments s) d))"
proof -
  define q where "q = filter (\<lambda>r. DATE (ha_created_at r) \<le> d) (health_assessments s)"
  define srt where "srt = sort_key assessment_key q"
  have la: "latest_assessments (health_assessments s) d = distinct_on_user srt"
    by (simp add: latest_assessments_def srt_def q_def assessment_key_def [abs_def])
  have sorted: "sorted (map assessment_key srt)" by (simp add: srt_def)
  have set: "set srt = {r \<in> set (health_assessments s). DATE (ha_created_at r) \<le> d}"
    by (auto simp: srt_def q_def)
  have 1: "distinct (map ha_user_id (latest_assessments (health_assessments s) d))"
    unfolding la using sorted by (intro distinct_on_user_distinct sorted_key_users)
  have 2: "\<forall>l \<in> set (latest_assessments (health_assessments s) d).
      l \<in> set (health_assessments s) \<and> DATE (ha_created_at l) \<le> d"
    unfolding la using distinct_on_user_subset [of srt] set by auto
  have 3: "\<forall>r \<in> set (health_assessments s). DATE (ha_created_at r) \<le> d \<longrightarrow>
      (\<exists>l \<in> set (latest_assessments (health_assessments s) d).
         ha_user_id l = ha_user_id r \<and> ha_created_at r \<le> ha_created_at l)"
    unfolding la using distinct_on_user_first [OF sorted] set by auto
  have 4: "\<forall>row. compute_insights d s = Inr row \<longrightarrow>
      ai_category_averages row = averages_of (latest_assessments (health_assessments s) d)"
    by (auto simp: compute_insights_def Let_def split: if_splits)
  show ?thesis using 1 2 3 4 by blast
qed

theorem latest_assessment_per_user_witness:
  "distinct (map ha_user_id
     (latest_assessments (health_assessments insights_db) (make_date 2025 6 7))) \<and>
   latest_assessments (health_assessments insights_db) (make_date 2025 6 7) =
     [assessment 1 (noon (make_date 2025 6 7) + 21600000000) 7,
      assessment 2 (noon (make_date 2025 6 6)) 9] \<and>
   avg_mindset (averages_of
     (latest_assessments (health_assessments insights_db) (make_date 2025 6 7))) = Some 8"
proof -
  have a: "distinct (map ha_user_id
     (latest_assessments (health_assessments insights_db) (make_date 2025 6 7)))"
    using latest_assessment_per_user [of insights_db "make_date 2025 6 7"] by (rule conjunct1)
  have b: "latest_assessments (health_assessments insights_db) (make_date 2025 6 7) =
     [assessment 1 (noon (make_date 2025 6 7) + 21600000000) 7,
      assessment 2 (noon (make_date 2025 6 6)) 9] \<and>
   avg_mindset (averages_of
     (latest_assessments (health_assessments insights_db) (make_date 2025 6 7))) = Some 8"
    by code_simp
  show ?thesis by (rule conjI [OF a b])
qed

end
